theory Spec2Isabelle
  imports Complex_Main
begin

section \<open>AFM image analyser: the correction routines and the driving script\<close>

text \<open>
  The repository has two source files. \<^verbatim>\<open>data_analysis.py\<close> holds the five correction
  routines (\<^verbatim>\<open>common_plane_subtraction\<close>, \<^verbatim>\<open>mean_drift_subtraction\<close>,
  \<^verbatim>\<open>line_drift_subtraction\<close>, \<^verbatim>\<open>shift_min\<close>, \<^verbatim>\<open>shift_mean\<close>);
  \<^verbatim>\<open>AFM_image_analyser.py\<close> is the script that reads the settings and calls them in order.

  A height grid is a two-dimensional numpy array. It is modelled as the list of its rows
  (the first numpy axis is the outer list). Heights are exact rationals: rounding of
  floating-point arithmetic is not part of the model. Every Python exception the routines
  can raise is a value of \<open>error\<close>.
\<close>

subsection \<open>Data\<close>

type_synonym grid = "rat list list"

datatype error =
    ValueError
  | LinAlgError
  | IndexError
  | TypeError string

text \<open>
  \<^verbatim>\<open>height_values.shape\<close>. A numpy array is rectangular: \<open>has_shape h nx ny\<close> says that
  \<open>h\<close> has \<open>nx\<close> rows of \<open>ny\<close> heights each. The column count of an array without rows
  is taken to be 0.
\<close>

definition shape :: "grid \<Rightarrow> nat \<times> nat" where
  "shape h = (length h, (case h of [] \<Rightarrow> 0 | r # _ \<Rightarrow> length r))"

definition has_shape :: "grid \<Rightarrow> nat \<Rightarrow> nat \<Rightarrow> bool" where
  "has_shape h nx ny = (length h = nx \<and> list_all (\<lambda>r. length r = ny) h)"

subsection \<open>The numpy operations the routines use\<close>

definition arange :: "nat \<Rightarrow> rat list" where
  "arange n = map of_nat [0..<n]"

text \<open>
  \<^verbatim>\<open>np.meshgrid(x_ax, y_ax)\<close> with the default \<^verbatim>\<open>indexing='xy'\<close>: both results have
  \<open>length y_ax\<close> rows and \<open>length x_ax\<close> columns; \<open>X\<close> repeats \<open>x_ax\<close> in every row,
  row \<open>i\<close> of \<open>Y\<close> is \<open>y_ax ! i\<close> repeated.
\<close>

definition meshgrid :: "rat list \<Rightarrow> rat list \<Rightarrow> grid \<times> grid" where
  "meshgrid x_ax y_ax =
     (replicate (length y_ax) x_ax, map (\<lambda>y. replicate (length x_ax) y) y_ax)"

definition ravel :: "grid \<Rightarrow> rat list" where
  "ravel h = concat h"

definition np_mean :: "rat list \<Rightarrow> rat" where
  "np_mean xs = sum_list xs / of_nat (length xs)"

definition dot :: "rat list \<Rightarrow> rat list \<Rightarrow> rat" where
  "dot xs ys = sum_list (map2 (*) xs ys)"

text \<open>
  \<^verbatim>\<open>np.linalg.lstsq(np.vstack([xs, np.ones_like(xs)]).T, zs)[0]\<close>: the least-squares
  solution \<open>(m, q)\<close> of \<open>z = m * x + q\<close>, and the one of least norm where the two
  columns are dependent (\<open>xs\<close> constant). numpy raises \<^verbatim>\<open>LinAlgError\<close> when the matrix
  and the right-hand side differ in their number of rows.
\<close>

definition lstsq_line :: "rat list \<Rightarrow> rat list \<Rightarrow> error + (rat \<times> rat)" where
  "lstsq_line xs zs =
     (if length xs \<noteq> length zs then Inl LinAlgError
      else
        let n = of_nat (length xs);
            sx = sum_list xs; sz = sum_list zs;
            dxx = n * dot xs xs - sx * sx;
            dxz = n * dot xs zs - sx * sz
        in if dxx \<noteq> 0 then
             (let m = dxz / dxx in Inr (m, (sz - m * sx) / n))
           else
             (let xb = sx / n; t = (sz / n) / (xb * xb + 1) in Inr (xb * t, t)))"

text \<open>
  \<^verbatim>\<open>np.linalg.lstsq(np.vstack([xs, ys, np.ones_like(xs)]).T, zs)[0]\<close>: the least-squares
  solution \<open>(a, b, c)\<close> of \<open>z = a * x + b * y + c\<close>, by the normal equations where the
  three columns are independent, and the solution of least norm otherwise (the centred
  columns proportional, or one or both of them constant).
\<close>

definition lstsq_plane :: "rat list \<Rightarrow> rat list \<Rightarrow> rat list \<Rightarrow> error + (rat \<times> rat \<times> rat)" where
  "lstsq_plane xs ys zs =
     (if \<not> (length xs = length zs \<and> length ys = length zs) then Inl LinAlgError
      else
        let n = of_nat (length zs);
            sx = sum_list xs; sy = sum_list ys; sz = sum_list zs;
            dxx = n * dot xs xs - sx * sx;
            dyy = n * dot ys ys - sy * sy;
            dxy = n * dot xs ys - sx * sy;
            dxz = n * dot xs zs - sx * sz;
            dyz = n * dot ys zs - sy * sz;
            det = dxx * dyy - dxy * dxy
        in if det \<noteq> 0 then
             (let a = (dxz * dyy - dyz * dxy) / det;
                  b = (dyz * dxx - dxz * dxy) / det
              in Inr (a, b, (sz - a * sx - b * sy) / n))
           else if dxx \<noteq> 0 then
             (let m = dxz / dxx; q = (sz - m * sx) / n;
                  k = dxy / dxx; e = sy / n - k * (sx / n);
                  b = (k * m + e * q) / (k * k + e * e + 1)
              in Inr (m - k * b, b, q - e * b))
           else if dyy \<noteq> 0 then
             (let m = dyz / dyy; q = (sz - m * sy) / n;
                  xb = sx / n;
                  a = xb * q / (xb * xb + 1)
              in Inr (a, m, q - a * xb))
           else
             (let xb = sx / n; yb = sy / n;
                  t = (sz / n) / (xb * xb + yb * yb + 1)
              in Inr (xb * t, yb * t, t)))"

text \<open>
  Subtraction of two-dimensional arrays with numpy's broadcasting: along each axis the
  two lengths are equal or one of them is 1 (that operand is then repeated); any other
  pair of shapes raises \<^verbatim>\<open>ValueError\<close>.
\<close>

definition bdim :: "nat \<Rightarrow> nat \<Rightarrow> nat" where
  "bdim m n = (if m = 1 then n else m)"

definition bcompat :: "nat \<Rightarrow> nat \<Rightarrow> bool" where
  "bcompat m n = (m = n \<or> m = 1 \<or> n = 1)"

definition bget :: "grid \<Rightarrow> nat \<Rightarrow> nat \<Rightarrow> rat" where
  "bget h i j =
     (let (r, c) = shape h
      in h ! (if r = 1 then 0 else i) ! (if c = 1 then 0 else j))"

definition bsub :: "grid \<Rightarrow> grid \<Rightarrow> error + grid" where
  "bsub h p =
     (let (r1, k1) = shape h; (r2, k2) = shape p
      in if bcompat r1 r2 \<and> bcompat k1 k2 then
           Inr (map (\<lambda>i. map (\<lambda>j. bget h i j - bget p i j) [0..<bdim k1 k2])
                    [0..<bdim r1 r2])
         else Inl ValueError)"

subsection \<open>data\_analysis.py\<close>

text \<open>\<^verbatim>\<open>a*X + b*Y + c\<close> on the two coordinate matrices, which have the same shape.\<close>

definition plane :: "rat \<Rightarrow> rat \<Rightarrow> rat \<Rightarrow> grid \<Rightarrow> grid \<Rightarrow> grid" where
  "plane a b c X Y = map2 (map2 (\<lambda>x y. a * x + b * y + c)) X Y"

definition common_plane_subtraction :: "grid \<Rightarrow> error + grid" where
  "common_plane_subtraction height_values =
     (let (nx, ny) = shape height_values;
          x_ax = arange nx;
          y_ax = arange ny;
          (X, Y) = meshgrid x_ax y_ax;
          x_flat = ravel X;
          y_flat = ravel Y;
          z_flat = ravel height_values
      in case lstsq_plane x_flat y_flat z_flat of
           Inl e \<Rightarrow> Inl e
         | Inr (a, b, c) \<Rightarrow> bsub height_values (plane a b c X Y))"

text \<open>
  The two drift routines loop \<^verbatim>\<open>for y in y_ax\<close> and read and assign the row
  \<^verbatim>\<open>height_values[y]\<close> in place; an index past the last row raises \<^verbatim>\<open>IndexError\<close>.
  The loop is a recursion on the list of indices still to visit, with the array passed
  along.
\<close>

fun mean_drift_loop :: "nat list \<Rightarrow> grid \<Rightarrow> error + grid" where
  "mean_drift_loop [] h = Inr h"
| "mean_drift_loop (y # ys) h =
     (if y < length h then
        (let mean_height = np_mean (h ! y)
         in mean_drift_loop ys (h[y := map (\<lambda>v. v - mean_height) (h ! y)]))
      else Inl IndexError)"

definition mean_drift_subtraction :: "grid \<Rightarrow> error + grid" where
  "mean_drift_subtraction height_values =
     (let (nx, ny) = shape height_values
      in mean_drift_loop [0..<ny] height_values)"

fun line_drift_loop :: "rat list \<Rightarrow> nat list \<Rightarrow> grid \<Rightarrow> error + grid" where
  "line_drift_loop x_ax [] h = Inr h"
| "line_drift_loop x_ax (y # ys) h =
     (if y < length h then
        (case lstsq_line x_ax (h ! y) of
           Inl e \<Rightarrow> Inl e
         | Inr (m, q) \<Rightarrow>
             line_drift_loop x_ax ys
               (h[y := map2 (-) (h ! y) (map (\<lambda>x. m * x + q) x_ax)]))
      else Inl IndexError)"

definition line_drift_subtraction :: "grid \<Rightarrow> error + grid" where
  "line_drift_subtraction height_values =
     (let (nx, ny) = shape height_values;
          x_ax = arange nx
      in line_drift_loop x_ax [0..<ny] height_values)"

text \<open>\<^verbatim>\<open>np.min\<close> of an array without elements raises \<^verbatim>\<open>ValueError\<close>.\<close>

definition shift_min :: "grid \<Rightarrow> error + grid" where
  "shift_min height_values =
     (if ravel height_values = [] then Inl ValueError
      else
        let minimum_height = Min (set (ravel height_values))
        in Inr (map (map (\<lambda>v. v - minimum_height)) height_values))"

definition shift_mean :: "grid \<Rightarrow> error + grid" where
  "shift_mean height_values =
     (let mean_height = np_mean (ravel height_values)
      in Inr (map (map (\<lambda>v. v - mean_height)) height_values))"

subsection \<open>AFM\_image\_analyser.py\<close>

text \<open>
  The script reads three strings from \<^verbatim>\<open>settings["data_analysis"]\<close> and compares each,
  after \<^verbatim>\<open>.lower()\<close>, with the literals it knows. \<open>lower\<close> maps the 26 capital
  letters, which is what \<^verbatim>\<open>str.lower\<close> does on every string that can compare equal to one
  of those literals.
\<close>

record settings =
  setting_common_plane_subtraction :: string
  setting_line_drift_correction :: string
  setting_data_shift :: string

definition lower_char :: "char \<Rightarrow> char" where
  "lower_char c =
     (case map_of (zip ''ABCDEFGHIJKLMNOPQRSTUVWXYZ'' ''abcdefghijklmnopqrstuvwxyz'') c of
        Some d \<Rightarrow> d
      | None \<Rightarrow> c)"

definition lower :: "string \<Rightarrow> string" where
  "lower s = map lower_char s"

text \<open>
  What a run does besides computing: every call the script makes into
  \<^verbatim>\<open>data_analysis\<close> and into the plotting functions of \<^verbatim>\<open>image\<close> is recorded in
  \<open>calls\<close> in the order made (a plot call with the grid it is given), every
  \<^verbatim>\<open>warnings.warn\<close> in \<open>warned\<close>, and \<open>warning_list\<close> is the module's global
  list of that name. An exception ends the run: the result is then \<open>Inl\<close> of the error
  and of the state reached, in which the array is the one before the failing call (the
  drift routines assign rows in place, but nothing reads the array after a raise).
\<close>

datatype call =
    Call_common_plane_subtraction
  | Call_mean_drift_subtraction
  | Call_line_drift_subtraction
  | Call_shift_min
  | Call_shift_mean
  | Call_plot_2d_image grid
  | Call_plot_3d_image grid

datatype warning = UserWarning string

record state =
  height_values :: grid
  calls :: "call list"
  warned :: "warning list"
  warning_list :: "string list"

type_synonym result = "(error \<times> state) + state"

definition initial :: "grid \<Rightarrow> state" where
  "initial g = \<lparr>height_values = g, calls = [], warned = [], warning_list = []\<rparr>"

definition and_then :: "result \<Rightarrow> (state \<Rightarrow> result) \<Rightarrow> result" where
  "and_then r f = (case r of Inl x \<Rightarrow> Inl x | Inr st \<Rightarrow> f st)"

definition final_state :: "result \<Rightarrow> state" where
  "final_state r = (case r of Inl (e, st) \<Rightarrow> st | Inr st \<Rightarrow> st)"

definition raised :: "result \<Rightarrow> error option" where
  "raised r = (case r of Inl (e, st) \<Rightarrow> Some e | Inr st \<Rightarrow> None)"

text \<open>\<^verbatim>\<open>height_values = data_analysis.f(height_values)\<close>\<close>

definition call_routine :: "call \<Rightarrow> (grid \<Rightarrow> error + grid) \<Rightarrow> state \<Rightarrow> result" where
  "call_routine c f st =
     (let st' = st\<lparr>calls := calls st @ [c]\<rparr>
      in case f (height_values st') of
           Inl e \<Rightarrow> Inl (e, st')
         | Inr h \<Rightarrow> Inr (st'\<lparr>height_values := h\<rparr>))"

text \<open>Lines 37-38 and, with the same two literals, lines 45-46.\<close>

definition warn_without_plane :: "state \<Rightarrow> result" where
  "warn_without_plane st =
     Inr (st\<lparr>warned := warned st @
                [UserWarning ''Linear drift correction was requested without plane subtraction. Common plane subtraction has been applied automatically to ensure accuracy.''],
              warning_list := warning_list st @
                [''UserWarning: Linear drift correction was requested without plane subtraction. Common plane subtraction has been applied automatically to ensure accuracy.'']\<rparr>)"

text \<open>Lines 24-29.\<close>

definition plane_stage :: "settings \<Rightarrow> state \<Rightarrow> result" where
  "plane_stage s st =
     (if lower (setting_common_plane_subtraction s) = ''yes'' then
        call_routine Call_common_plane_subtraction common_plane_subtraction st
      else if lower (setting_common_plane_subtraction s) = ''no'' then Inr st
      else Inl (TypeError ''Variable inserted for 'common_plane_subtraction' in settings.json is not valid. Please insert 'yes' or 'no' (variable is not case-sensitive).'', st))"

text \<open>Lines 31-50.\<close>

definition drift_stage :: "settings \<Rightarrow> state \<Rightarrow> result" where
  "drift_stage s st =
     (if lower (setting_line_drift_correction s) = ''linear'' then
        (if lower (setting_common_plane_subtraction s) = ''yes'' then
           call_routine Call_line_drift_subtraction line_drift_subtraction st
         else
           and_then
             (and_then (call_routine Call_common_plane_subtraction common_plane_subtraction st)
                (call_routine Call_line_drift_subtraction line_drift_subtraction))
             warn_without_plane)
      else if lower (setting_line_drift_correction s) = ''mean'' then
        (if lower (setting_common_plane_subtraction s) = ''yes'' then
           call_routine Call_mean_drift_subtraction mean_drift_subtraction st
         else
           and_then
             (and_then (call_routine Call_common_plane_subtraction common_plane_subtraction st)
                (call_routine Call_line_drift_subtraction line_drift_subtraction))
             warn_without_plane)
      else if lower (setting_line_drift_correction s) = ''no'' then Inr st
      else Inl (TypeError ''Variable inserted for 'linear_drift_subtraction' in settings.json is not valid. Please insert 'yes' or 'no' (variable is not case-sensitive).'', st))"

text \<open>Lines 52-57.\<close>

definition shift_stage :: "settings \<Rightarrow> state \<Rightarrow> result" where
  "shift_stage s st =
     (if lower (setting_data_shift s) = ''minimum'' then
        call_routine Call_shift_min shift_min st
      else if lower (setting_data_shift s) = ''mean'' then
        call_routine Call_shift_mean shift_mean st
      else Inl (TypeError ''Variable inserted for 'data_shift' in settings.json is not valid. Please insert 'minimum' or 'mean' (variable is not case-sensitive).'', st))"

text \<open>Lines 59-60: the two plots of the corrected grid.\<close>

definition plot_stage :: "state \<Rightarrow> result" where
  "plot_stage st =
     Inr (st\<lparr>calls := calls st @
                [Call_plot_2d_image (height_values st), Call_plot_3d_image (height_values st)]\<rparr>)"

text \<open>The script from line 24 on, on the grid that \<^verbatim>\<open>read_tiff\<close> returned.\<close>

definition main :: "settings \<Rightarrow> grid \<Rightarrow> result" where
  "main s g =
     and_then
       (and_then (and_then (plane_stage s (initial g)) (drift_stage s)) (shift_stage s))
       plot_stage"

text \<open>
  Modelled from the spec: the results writer. The module \<^verbatim>\<open>results_generator\<close> is not
  among the sources; the spec gives its interface as open, write and close. The script
  calls \<^verbatim>\<open>setup\<close> (the spec's open) at line 16 and \<^verbatim>\<open>close\<close> at line 62, and has no
  call that writes. The calls made on the writer are recorded in the order made.
\<close>

datatype results_call =
    Results_setup string
  | Results_write string
  | Results_close

text \<open>
  Lines 14-16. \<^verbatim>\<open>args.results\<close> is \<^verbatim>\<open>None\<close> without the flag, else the file name
  (\<^verbatim>\<open>results.txt\<close> when the flag has no value); \<^verbatim>\<open>if args.results:\<close> is false of
  \<^verbatim>\<open>None\<close> and of the empty string.
\<close>

definition results_setup :: "string option \<Rightarrow> results_call list" where
  "results_setup results =
     (case results of
        None \<Rightarrow> []
      | Some name \<Rightarrow> (if name = [] then [] else [Results_setup name]))"

text \<open>
  The whole script: the set-up of the results file, then lines 24-60, then, if no
  exception has ended the run, \<^verbatim>\<open>results_file.close()\<close> of line 62. The result is the
  record of the calls on the results writer together with the result of \<open>main\<close>.
\<close>

definition run :: "string option \<Rightarrow> settings \<Rightarrow> grid \<Rightarrow> results_call list \<times> result" where
  "run results s g =
     (case main s g of
        Inl x \<Rightarrow> (results_setup results, Inl x)
      | Inr st \<Rightarrow> (results_setup results @ [Results_close], Inr st))"

subsection \<open>Vocabulary of the properties\<close>

text \<open>A square grid with at least one element: \<open>n\<close> rows of \<open>n\<close> heights, \<open>n > 0\<close>.\<close>

definition square :: "grid \<Rightarrow> bool" where
  "square h = (h \<noteq> [] \<and> has_shape h (length h) (length h))"

text \<open>The three enumerated fields each hold one of their values, whatever the case.\<close>

definition valid_settings :: "settings \<Rightarrow> bool" where
  "valid_settings s =
     (lower (setting_common_plane_subtraction s) \<in> {''yes'', ''no''}
      \<and> lower (setting_line_drift_correction s) \<in> {''linear'', ''mean'', ''no''}
      \<and> lower (setting_data_shift s) \<in> {''minimum'', ''mean''})"

text \<open>
  The configuration error is the \<^verbatim>\<open>TypeError\<close> that the script raises itself; the other
  errors come from numpy, inside a correction routine.
\<close>

fun is_configuration_error :: "error \<Rightarrow> bool" where
  "is_configuration_error (TypeError msg) = True"
| "is_configuration_error e = False"

text \<open>The text of the warning about the automatic plane subtraction.\<close>

definition fallback_text :: string where
  "fallback_text = ''Linear drift correction was requested without plane subtraction. Common plane subtraction has been applied automatically to ensure accuracy.''"

text \<open>\<open>mentions p s\<close>: the text \<open>p\<close> occurs in the message \<open>s\<close>.\<close>

fun mentions :: "string \<Rightarrow> string \<Rightarrow> bool" where
  "mentions p [] = (p = [])"
| "mentions p (c # cs) = (take (length p) (c # cs) = p \<or> mentions p cs)"

text \<open>
  What the loop of \<open>line_drift_subtraction\<close> does to one row, and what the loop of
  \<open>mean_drift_subtraction\<close> does to one row.
\<close>

definition line_residual :: "rat list \<Rightarrow> rat list \<Rightarrow> rat list" where
  "line_residual x_ax row =
     (case lstsq_line x_ax row of
        Inl e \<Rightarrow> row
      | Inr (m, q) \<Rightarrow> map2 (-) row (map (\<lambda>x. m * x + q) x_ax))"

definition mean_residual :: "rat list \<Rightarrow> rat list" where
  "mean_residual row = map (\<lambda>v. v - np_mean row) row"

text \<open>
  What \<open>common_plane_subtraction\<close> leaves of the flattened heights \<open>zs\<close>, the plane
  being fitted over the flattened coordinates \<open>xs\<close> and \<open>ys\<close>.
\<close>

definition plane_residual :: "rat list \<Rightarrow> rat list \<Rightarrow> rat list \<Rightarrow> rat list" where
  "plane_residual xs ys zs =
     (case lstsq_plane xs ys zs of
        Inl e \<Rightarrow> zs
      | Inr (a, b, c) \<Rightarrow> map2 (-) zs (map2 (\<lambda>x y. a * x + b * y + c) xs ys))"

text \<open>The sums of squares that the two fits minimise.\<close>

definition line_error :: "rat list \<Rightarrow> rat list \<Rightarrow> rat \<Rightarrow> rat \<Rightarrow> rat" where
  "line_error xs zs m q = sum_list (map2 (\<lambda>x z. (z - (m * x + q)) * (z - (m * x + q))) xs zs)"

definition plane_error :: "rat list \<Rightarrow> rat list \<Rightarrow> rat list \<Rightarrow> rat \<Rightarrow> rat \<Rightarrow> rat \<Rightarrow> rat" where
  "plane_error xs ys zs a b c =
     sum_list (map2 (\<lambda>(x, y) z. (z - (a * x + b * y + c)) * (z - (a * x + b * y + c)))
                 (zip xs ys) zs)"

text \<open>The calls that render: the two plotting functions.\<close>

fun is_plot :: "call \<Rightarrow> bool" where
  "is_plot (Call_plot_2d_image h) = True"
| "is_plot (Call_plot_3d_image h) = True"
| "is_plot c = False"

text \<open>
  The invariant of the run up to the plots: nothing has been plotted and, if the input
  grid was square (\<open>sq\<close>), the current grid is square; \<open>stage_ok\<close> is what a stage
  started in such a state ends in.
\<close>

definition pre_render :: "bool \<Rightarrow> state \<Rightarrow> bool" where
  "pre_render sq st = (filter is_plot (calls st) = [] \<and> (sq \<longrightarrow> square (height_values st)))"

definition stage_ok :: "bool \<Rightarrow> result \<Rightarrow> bool" where
  "stage_ok sq r =
     (case r of
        Inl (e, st) \<Rightarrow> filter is_plot (calls st) = [] \<and> (sq \<longrightarrow> (\<exists>msg. e = TypeError msg))
      | Inr st \<Rightarrow> pre_render sq st)"

section \<open>Properties\<close>

lemmas np_defs = shape_def arange_def meshgrid_def ravel_def np_mean_def dot_def
  lstsq_line_def lstsq_plane_def bdim_def bcompat_def bget_def bsub_def plane_def

lemmas script_defs = main_def initial_def and_then_def call_routine_def plane_stage_def
  drift_stage_def shift_stage_def plot_stage_def warn_without_plane_def lower_def lower_char_def
  final_state_def raised_def

subsection \<open>Shapes, and the drift loops row by row\<close>

lemma has_shape_iff: "has_shape h nx ny \<longleftrightarrow> length h = nx \<and> (\<forall>r\<in>set h. length r = ny)"
  by (simp add: has_shape_def list_all_iff)

lemma has_shape_nth: "has_shape h nx ny \<Longrightarrow> i < nx \<Longrightarrow> length (h ! i) = ny"
  by (simp add: has_shape_iff)

lemma has_shape_update:
  "has_shape h nx ny \<Longrightarrow> length r = ny \<Longrightarrow> has_shape (h[y := r]) nx ny"
  by (auto simp: has_shape_iff dest: set_update_subset_insert [THEN subsetD])

lemma shape_of_has_shape: "has_shape h nx ny \<Longrightarrow> 0 < nx \<Longrightarrow> shape h = (nx, ny)"
  by (cases h) (simp_all add: has_shape_def shape_def)

lemma lstsq_line_total:
  "length xs = length zs \<Longrightarrow> \<exists>m q. lstsq_line xs zs = Inr (m, q)"
  by (simp add: lstsq_line_def Let_def)

lemma length_line_residual: "length x_ax = length row \<Longrightarrow> length (line_residual x_ax row) = length row"
  by (auto simp: line_residual_def split: sum.splits)

lemma length_mean_residual: "length (mean_residual row) = length row"
  by (simp add: mean_residual_def)

text \<open>The loops, row by row.\<close>

lemma line_drift_loop_rows:
  assumes "\<forall>y\<in>set ys. y < length h" and "\<forall>r\<in>set h. length r = length x_ax" and "distinct ys"
  shows "\<exists>h'. line_drift_loop x_ax ys h = Inr h' \<and> length h' = length h
           \<and> (\<forall>i<length h. h' ! i = (if i \<in> set ys then line_residual x_ax (h ! i) else h ! i))"
  using assms
proof (induction ys arbitrary: h)
  case Nil
  then show ?case by simp
next
  case (Cons y ys)
  from Cons.prems have y: "y < length h" and len: "length (h ! y) = length x_ax"
    by simp_all
  obtain m q where fit: "lstsq_line x_ax (h ! y) = Inr (m, q)"
    using lstsq_line_total [of x_ax "h ! y"] len by auto
  let ?r = "map2 (-) (h ! y) (map (\<lambda>x. m * x + q) x_ax)"
  let ?h = "h[y := ?r]"
  have r: "?r = line_residual x_ax (h ! y)"
    by (simp add: line_residual_def fit)
  have rows: "\<forall>r\<in>set ?h. length r = length x_ax"
  proof
    fix r assume "r \<in> set ?h"
    then have "r = ?r \<or> r \<in> set h"
      using set_update_subset_insert [of h y ?r] by auto
    then show "length r = length x_ax"
      using Cons.prems(2) len by auto
  qed
  have "\<forall>y\<in>set ys. y < length ?h" and "distinct ys"
    using Cons.prems by simp_all
  from Cons.IH [OF this(1) rows this(2)]
  obtain h' where h': "line_drift_loop x_ax ys ?h = Inr h'" "length h' = length ?h"
    "\<forall>i<length ?h. h' ! i = (if i \<in> set ys then line_residual x_ax (?h ! i) else ?h ! i)"
    by blast
  have step: "line_drift_loop x_ax (y # ys) h = Inr h'"
    using y fit h'(1) by simp
  have "\<forall>i<length h. h' ! i = (if i \<in> set (y # ys) then line_residual x_ax (h ! i) else h ! i)"
  proof (intro allI impI)
    fix i assume i: "i < length h"
    show "h' ! i = (if i \<in> set (y # ys) then line_residual x_ax (h ! i) else h ! i)"
    proof (cases "i = y")
      case True
      then have "i \<notin> set ys" using Cons.prems(3) by simp
      then show ?thesis using h'(3) i True r by simp
    next
      case False
      then show ?thesis using h'(3) i by simp
    qed
  qed
  with step h'(2) show ?case by simp
qed

lemma mean_drift_loop_rows:
  assumes "\<forall>y\<in>set ys. y < length h" and "distinct ys"
  shows "\<exists>h'. mean_drift_loop ys h = Inr h' \<and> length h' = length h
           \<and> (\<forall>i<length h. h' ! i = (if i \<in> set ys then mean_residual (h ! i) else h ! i))"
  using assms
proof (induction ys arbitrary: h)
  case Nil
  then show ?case by simp
next
  case (Cons y ys)
  from Cons.prems have y: "y < length h" by simp
  let ?h = "h[y := mean_residual (h ! y)]"
  have "\<forall>y\<in>set ys. y < length ?h" and "distinct ys"
    using Cons.prems by simp_all
  from Cons.IH [OF this]
  obtain h' where h': "mean_drift_loop ys ?h = Inr h'" "length h' = length ?h"
    "\<forall>i<length ?h. h' ! i = (if i \<in> set ys then mean_residual (?h ! i) else ?h ! i)"
    by blast
  have step: "mean_drift_loop (y # ys) h = Inr h'"
    using y h'(1) by (simp add: mean_residual_def Let_def)
  have "\<forall>i<length h. h' ! i = (if i \<in> set (y # ys) then mean_residual (h ! i) else h ! i)"
  proof (intro allI impI)
    fix i assume i: "i < length h"
    show "h' ! i = (if i \<in> set (y # ys) then mean_residual (h ! i) else h ! i)"
    proof (cases "i = y")
      case True
      then have "i \<notin> set ys" using Cons.prems(2) by simp
      then show ?thesis using h'(3) i True by simp
    next
      case False
      then show ?thesis using h'(3) i by simp
    qed
  qed
  with step h'(2) show ?case by simp
qed

lemma square_shape: "square h \<Longrightarrow> shape h = (length h, length h)"
  by (simp add: square_def shape_of_has_shape)

lemma square_rows: "square h \<Longrightarrow> r \<in> set h \<Longrightarrow> length r = length h"
  by (simp add: square_def has_shape_iff)

lemma line_drift_subtraction_square:
  assumes "square h"
  shows "line_drift_subtraction h = Inr (map (line_residual (arange (length h))) h)"
proof -
  let ?n = "length h"
  have rows: "\<forall>r\<in>set h. length r = length (arange ?n)"
    using assms by (simp add: square_rows arange_def)
  from line_drift_loop_rows [of "[0..<?n]" h "arange ?n"] rows
  obtain h' where h': "line_drift_loop (arange ?n) [0..<?n] h = Inr h'" "length h' = ?n"
    "\<forall>i<?n. h' ! i = line_residual (arange ?n) (h ! i)"
    by auto
  have "h' = map (line_residual (arange ?n)) h"
    using h'(2,3) by (intro nth_equalityI) simp_all
  then show ?thesis
    using h'(1) assms by (simp add: line_drift_subtraction_def square_shape)
qed

lemma mean_drift_subtraction_square:
  assumes "square h"
  shows "mean_drift_subtraction h = Inr (map mean_residual h)"
proof -
  let ?n = "length h"
  from mean_drift_loop_rows [of "[0..<?n]" h]
  obtain h' where h': "mean_drift_loop [0..<?n] h = Inr h'" "length h' = ?n"
    "\<forall>i<?n. h' ! i = mean_residual (h ! i)"
    by auto
  have "h' = map mean_residual h"
    using h'(2,3) by (intro nth_equalityI) simp_all
  then show ?thesis
    using h'(1) assms by (simp add: mean_drift_subtraction_def square_shape)
qed

lemma square_map_rows:
  assumes "square h" and "\<And>r. r \<in> set h \<Longrightarrow> length (f r) = length r"
  shows "square (map f h)"
  using assms by (auto simp: square_def has_shape_iff)

lemma length_ravel_has_shape: "has_shape h nx ny \<Longrightarrow> length (ravel h) = nx * ny"
proof -
  assume a: "has_shape h nx ny"
  then have "map length h = replicate nx ny"
    by (auto simp: has_shape_iff intro: replicate_eqI)
  then show ?thesis
    using a by (simp add: ravel_def length_concat sum_list_replicate)
qed

lemma meshgrid_shape:
  "meshgrid (arange nx) (arange ny) = (X, Y) \<Longrightarrow> has_shape X ny nx \<and> has_shape Y ny nx"
  by (auto simp: meshgrid_def arange_def has_shape_iff)

lemma has_shape_plane:
  "has_shape X r c \<Longrightarrow> has_shape Y r c \<Longrightarrow> has_shape (plane a b k X Y) r c"
  by (auto simp: plane_def has_shape_iff set_zip)

lemma lstsq_plane_total:
  "length xs = length zs \<Longrightarrow> length ys = length zs \<Longrightarrow> \<exists>a b c. lstsq_plane xs ys zs = Inr (a, b, c)"
  by (simp add: lstsq_plane_def Let_def)

lemma bsub_same_shape:
  assumes "has_shape h n n" and "has_shape p n n" and "0 < n"
  shows "\<exists>r. bsub h p = Inr r \<and> has_shape r n n"
proof -
  have "shape h = (n, n)" "shape p = (n, n)"
    using assms by (simp_all add: shape_of_has_shape)
  then show ?thesis
    by (simp add: bsub_def bcompat_def bdim_def has_shape_iff)
qed

lemma common_plane_subtraction_square:
  assumes "square h"
  shows "\<exists>h'. common_plane_subtraction h = Inr h' \<and> square h' \<and> length h' = length h"
proof -
  let ?n = "length h"
  have n: "0 < ?n" and hs: "has_shape h ?n ?n"
    using assms by (simp_all add: square_def)
  obtain X Y where m: "meshgrid (arange ?n) (arange ?n) = (X, Y)"
    by (cases "meshgrid (arange ?n) (arange ?n)")
  then have XY: "has_shape X ?n ?n" "has_shape Y ?n ?n"
    using meshgrid_shape by blast+
  have "length (ravel X) = length (ravel h)" "length (ravel Y) = length (ravel h)"
    using XY hs by (simp_all add: length_ravel_has_shape)
  then obtain a b c where fit: "lstsq_plane (ravel X) (ravel Y) (ravel h) = Inr (a, b, c)"
    using lstsq_plane_total by blast
  from bsub_same_shape [OF hs has_shape_plane [OF XY] n]
  obtain r where r: "bsub h (plane a b c X Y) = Inr r" "has_shape r ?n ?n"
    by blast
  have "common_plane_subtraction h = Inr r"
    using assms m fit r(1) by (simp add: common_plane_subtraction_def square_shape)
  moreover have "square r" "length r = ?n"
    using r(2) n by (auto simp: square_def has_shape_iff)
  ultimately show ?thesis by blast
qed

lemma line_drift_subtraction_square_ex:
  assumes "square h"
  shows "\<exists>h'. line_drift_subtraction h = Inr h' \<and> square h' \<and> length h' = length h"
proof -
  have "square (map (line_residual (arange (length h))) h)"
    using assms by (intro square_map_rows) (simp_all add: length_line_residual arange_def square_rows)
  then show ?thesis
    using line_drift_subtraction_square [OF assms] by simp
qed

lemma mean_drift_subtraction_square_ex:
  assumes "square h"
  shows "\<exists>h'. mean_drift_subtraction h = Inr h' \<and> square h' \<and> length h' = length h"
proof -
  have "square (map mean_residual h)"
    using assms by (intro square_map_rows) (simp_all add: length_mean_residual)
  then show ?thesis
    using mean_drift_subtraction_square [OF assms] by simp
qed

lemma ravel_square_nonempty: "square h \<Longrightarrow> ravel h \<noteq> []"
proof -
  assume a: "square h"
  then have "length (ravel h) = length h * length h"
    by (simp add: square_def length_ravel_has_shape)
  then show ?thesis using a by (auto simp: square_def)
qed

lemma shift_min_square:
  assumes "square h"
  shows "\<exists>h'. shift_min h = Inr h' \<and> square h' \<and> length h' = length h"
proof -
  have "square (map (map (\<lambda>v. v - Min (set (ravel h)))) h)"
    using assms by (intro square_map_rows) simp_all
  then show ?thesis
    using ravel_square_nonempty [OF assms] by (simp add: shift_min_def Let_def)
qed

lemma shift_mean_square:
  assumes "square h"
  shows "\<exists>h'. shift_mean h = Inr h' \<and> square h' \<and> length h' = length h"
proof -
  have "square (map (map (\<lambda>v. v - np_mean (ravel h))) h)"
    using assms by (intro square_map_rows) simp_all
  then show ?thesis
    by (simp add: shift_mean_def Let_def)
qed

text \<open>
  C4 (the code departs from the claim). The claim: each of the five routines completes on
  every grid of \<open>N_x\<close> rows and \<open>N_y\<close> columns, also where \<open>N_x \<noteq> N_y\<close>, and returns a
  grid of the same dimensions. \<open>common_plane_subtraction\<close> turns the grid \<open>[[0, 1]]\<close> of
  shape \<open>(1, 2)\<close> into a grid of shape \<open>(2, 2)\<close>, and on a grid of shape \<open>(2, 3)\<close>
  it and the two drift routines raise.
\<close>

theorem correction_steps_on_non_square_grids:
  "shape [[0, 1]] = (1, 2)
   \<and> common_plane_subtraction [[0, 1]] = Inr [[0, 1], [- 1, 0]]
   \<and> shape [[0, 1], [- 1, 0]] = (2, 2)
   \<and> common_plane_subtraction [[0, 1, 2], [3, 4, 5]] = Inl ValueError
   \<and> line_drift_subtraction [[0, 1, 2], [3, 4, 5]] = Inl LinAlgError
   \<and> mean_drift_subtraction [[0, 1, 2], [3, 4, 5]] = Inl IndexError"
  by (simp add: common_plane_subtraction_def line_drift_subtraction_def
      mean_drift_subtraction_def np_defs upt_rec)

text \<open>
  On square grids each of the five routines completes and returns a square grid of the
  same size.
\<close>

lemma correction_steps_keep_square_shape:
  assumes "square h"
    and "f \<in> {common_plane_subtraction, line_drift_subtraction, mean_drift_subtraction,
               shift_min, shift_mean}"
  shows "\<exists>h'. f h = Inr h' \<and> square h' \<and> length h' = length h"
  using assms common_plane_subtraction_square [of h] line_drift_subtraction_square_ex [of h]
    mean_drift_subtraction_square_ex [of h] shift_min_square [of h] shift_mean_square [of h]
  by auto

subsection \<open>Mean drift subtraction\<close>

text \<open>
  C5 (the code departs from the claim). The claim: \<open>mean_drift_subtraction\<close> subtracts
  from every row of the grid, whatever its shape, the mean of that row, so that every
  row of the result has mean zero. On the grid \<open>[[1], [2]]\<close> of two rows and one column
  the loop visits row 0 only: the second row is returned as it was, with mean 2.
\<close>

theorem mean_drift_subtraction_skips_rows:
  "mean_drift_subtraction [[1], [2]] = Inr [[0], [2]] \<and> np_mean [2] \<noteq> 0"
  by (simp add: mean_drift_subtraction_def np_defs upt_rec)

text \<open>
  On a square grid the loop visits every row, and every row of the result has mean 0.
\<close>

lemma mean_drift_subtraction_square_rows:
  assumes "square h"
  shows "\<exists>h'. mean_drift_subtraction h = Inr h' \<and> square h' \<and> length h' = length h
           \<and> list_all (\<lambda>r. np_mean r = 0) h'"
proof -
  have n: "0 < length h"
    using assms by (simp add: square_def)
  have "np_mean (mean_residual r) = 0" if "r \<in> set h" for r
  proof -
    have l: "length r = length h" using assms that by (simp add: square_rows)
    then have "of_nat (length r) \<noteq> (0 :: rat)" using n by simp
    moreover have "sum_list (map (\<lambda>v. v - c) r) = sum_list r - of_nat (length r) * c" for c
      by (induction r) (simp_all add: algebra_simps)
    then have "sum_list (mean_residual r) = sum_list r - of_nat (length r) * np_mean r"
      by (simp add: mean_residual_def)
    ultimately show ?thesis
      by (simp add: np_mean_def [of "mean_residual r"] np_mean_def [of r])
  qed
  then have "list_all (\<lambda>r. np_mean r = 0) (map mean_residual h)"
    by (simp add: list_all_iff)
  then show ?thesis
    using mean_drift_subtraction_square [OF assms] mean_drift_subtraction_square_ex [OF assms]
    by auto
qed

subsection \<open>Vertical shift\<close>

lemma ravel_map_map: "ravel (map (map f) g) = map f (ravel g)"
  by (simp add: ravel_def map_concat)

lemma shape_map_map: "shape (map (map f) g) = shape g"
  by (cases g) (simp_all add: shape_def)

lemma Min_minus_Min:
  fixes xs :: "rat list"
  assumes "xs \<noteq> []"
  shows "Min ((\<lambda>v. v - Min (set xs)) ` set xs) = 0"
proof -
  have m: "mono (\<lambda>v::rat. v - Min (set xs))"
    by (simp add: mono_def)
  have "Min ((\<lambda>v. v - Min (set xs)) ` set xs) = Min (set xs) - Min (set xs)"
    using mono_Min_commute [OF m, of "set xs"] assms by simp
  then show ?thesis by simp
qed

text \<open>
  C8. On every grid with at least one element \<open>shift_min\<close> returns a grid whose least
  element is exactly 0, with the number of rows and the length of every row unchanged.
\<close>

theorem shift_min_minimum_zero:
  assumes "ravel g \<noteq> []"
  shows "\<exists>g'. shift_min g = Inr g' \<and> Min (set (ravel g')) = 0
           \<and> shape g' = shape g \<and> map length g' = map length g"
  using assms by (simp add: shift_min_def Let_def ravel_map_map shape_map_map Min_minus_Min)

theorem shift_min_minimum_zero_witness:
  "ravel [[1, 2], [3, - 7]] \<noteq> [] \<and>
   (\<exists>g'. shift_min [[1, 2], [3, - 7]] = Inr g' \<and> Min (set (ravel g')) = 0
      \<and> shape g' = shape [[1, 2], [3, - 7]]
      \<and> map length g' = map length [[1, 2], [3, - 7 :: rat]])"
  using shift_min_minimum_zero [of "[[1, 2], [3, - 7]]"] by (simp add: ravel_def)

text \<open>\<open>shift_mean\<close> keeps the shape of every grid as well.\<close>

lemma shift_mean_keeps_shape:
  "\<exists>g'. shift_mean g = Inr g' \<and> shape g' = shape g \<and> map length g' = map length g"
  by (simp add: shift_mean_def Let_def shape_map_map)

subsection \<open>Line drift subtraction\<close>

lemma arange_Suc: "arange (Suc n) = arange n @ [of_nat n]"
  by (simp add: arange_def)

lemma length_arange: "length (arange n) = n"
  by (simp add: arange_def)

lemma dot_append:
  "length xs = length ys \<Longrightarrow> dot (xs @ xs') (ys @ ys') = dot xs ys + dot xs' ys'"
  by (simp add: dot_def)

lemma sum_list_arange: "sum_list (arange n) = of_nat n * (of_nat n - 1) / 2"
  by (induction n) (simp_all add: arange_Suc arange_def field_simps)

lemma dot_arange:
  "dot (arange n) (arange n) = (of_nat n - 1) * of_nat n * (2 * of_nat n - 1) / 6"
proof (induction n)
  case 0
  then show ?case by (simp add: arange_def dot_def)
next
  case (Suc n)
  have "dot (arange (Suc n)) (arange (Suc n)) = dot (arange n) (arange n) + of_nat n * of_nat n"
    by (simp add: arange_Suc dot_append) (simp add: dot_def)
  then show ?case
    by (simp add: Suc.IH field_simps)
qed

lemma arange_spread:
  assumes "2 \<le> n"
  shows "of_nat n * dot (arange n) (arange n) - sum_list (arange n) * sum_list (arange n) \<noteq> 0"
proof -
  define k :: rat where "k = of_nat n"
  have k: "2 \<le> k"
    using assms by (simp add: k_def)
  have "of_nat n * dot (arange n) (arange n) - sum_list (arange n) * sum_list (arange n)
      = k * k * (k - 1) * (k + 1) / 12"
    by (simp add: dot_arange sum_list_arange k_def [symmetric] field_simps)
  moreover have "0 < k * k * (k - 1) * (k + 1)"
    using k by (intro mult_pos_pos) simp_all
  ultimately show ?thesis by simp
qed

lemma sum_list_map2_minus:
  "length xs = length ys \<Longrightarrow> sum_list (map2 (-) xs ys) = sum_list xs - sum_list (ys :: rat list)"
  by (induction xs ys rule: list_induct2) simp_all

lemma sum_list_line:
  "sum_list (map (\<lambda>x. m * x + q) xs) = m * sum_list xs + q * of_nat (length xs)"
  for m q :: rat
  by (induction xs) (simp_all add: algebra_simps)

lemma dot_map2_minus:
  "length xs = length zs \<Longrightarrow> length zs = length ws \<Longrightarrow>
   dot xs (map2 (-) zs ws) = dot xs zs - dot xs ws"
  by (induction xs zs ws rule: list_induct3) (simp_all add: dot_def algebra_simps)

lemma dot_line: "dot xs (map (\<lambda>x. m * x + q) xs) = m * dot xs xs + q * sum_list xs"
  by (induction xs) (simp_all add: dot_def algebra_simps)

text \<open>The residual of a fitted row is orthogonal to the constant and to the abscissae.\<close>

lemma residual_normal_equations:
  fixes xs zs :: "rat list"
  assumes len: "length xs = length zs"
    and d: "of_nat (length xs) * dot xs xs - sum_list xs * sum_list xs \<noteq> 0"
  shows "sum_list (line_residual xs zs) = 0 \<and> dot xs (line_residual xs zs) = 0"
proof -
  define n :: rat where "n = of_nat (length xs)"
  define sx where "sx = sum_list xs"
  define sz where "sz = sum_list zs"
  define sxx where "sxx = dot xs xs"
  define sxz where "sxz = dot xs zs"
  define m where "m = (n * sxz - sx * sz) / (n * sxx - sx * sx)"
  define q where "q = (sz - m * sx) / n"
  have d': "n * sxx - sx * sx \<noteq> 0"
    using d by (simp add: n_def sxx_def sx_def)
  have n0: "n \<noteq> 0"
  proof
    assume "n = 0"
    then have "xs = []" by (simp add: n_def)
    then show False using d by simp
  qed
  have fit: "lstsq_line xs zs = Inr (m, q)"
    using len d' by (simp add: lstsq_line_def Let_def m_def q_def n_def sx_def sz_def sxx_def sxz_def)
  have res: "line_residual xs zs = map2 (-) zs (map (\<lambda>x. m * x + q) xs)"
    by (simp add: line_residual_def fit)
  have s: "sum_list (line_residual xs zs) = sz - (m * sx + q * n)"
    using len by (simp add: res sum_list_map2_minus sum_list_line sz_def sx_def n_def)
  have t: "dot xs (line_residual xs zs) = sxz - (m * sxx + q * sx)"
    using len by (simp add: res dot_map2_minus dot_line sxz_def sxx_def sx_def)
  have qn: "q * n = sz - m * sx"
    using n0 by (simp add: q_def)
  have md: "m * (n * sxx - sx * sx) = n * sxz - sx * sz"
    using d' by (simp add: m_def)
  have "sz - (m * sx + q * n) = 0"
    using qn by simp
  moreover have "n * (sxz - (m * sxx + q * sx)) = 0"
  proof -
    have "n * (sxz - (m * sxx + q * sx)) = n * sxz - m * (n * sxx) - (q * n) * sx"
      by (simp add: algebra_simps)
    also have "\<dots> = n * sxz - m * (n * sxx) - (sz - m * sx) * sx"
      by (simp add: qn)
    also have "\<dots> = (n * sxz - sx * sz) - m * (n * sxx - sx * sx)"
      by (simp add: algebra_simps)
    also have "\<dots> = 0"
      by (simp add: md)
    finally show ?thesis .
  qed
  then have "sxz - (m * sxx + q * sx) = 0"
    using n0 by simp
  ultimately show ?thesis
    using s t by simp
qed

lemma residual_single: "line_residual [0] [z] = [0]"
  by (simp add: line_residual_def lstsq_line_def dot_def Let_def)

lemma arange_1: "arange (Suc 0) = [0]"
  by (simp add: arange_def)

lemma arange_residual_orthogonal:
  assumes "length zs = n" and "0 < n"
  shows "sum_list (line_residual (arange n) zs) = 0
       \<and> dot (arange n) (line_residual (arange n) zs) = 0"
proof (cases "n = 1")
  case True
  then obtain z where "zs = [z]"
    using assms(1) by (cases zs) auto
  then show ?thesis
    using True by (simp add: arange_1 residual_single dot_def)
next
  case False
  then have "2 \<le> n" using assms(2) by simp
  from arange_spread [OF this] assms(1) show ?thesis
    by (intro residual_normal_equations) (simp_all add: length_arange)
qed

lemma lstsq_line_of_orthogonal:
  assumes "length xs = length r" and "sum_list r = 0" and "dot xs r = 0"
  shows "lstsq_line xs r = Inr (0, 0)"
  using assms by (simp add: lstsq_line_def Let_def)

lemma map2_minus_zero:
  "length r = length xs \<Longrightarrow> map2 (-) r (map (\<lambda>x. 0) xs) = (r :: rat list)"
  by (induction r xs rule: list_induct2) simp_all

lemma line_residual_fixed:
  assumes "length xs = length r" and "sum_list r = 0" and "dot xs r = 0"
  shows "line_residual xs r = r"
  using assms by (simp add: line_residual_def lstsq_line_of_orthogonal map2_minus_zero)

lemma mean_residual_fixed: "sum_list r = 0 \<Longrightarrow> mean_residual r = r"
  by (simp add: mean_residual_def np_mean_def)


text \<open>
  In exact arithmetic: on every square grid with at least one element
  \<open>line_drift_subtraction\<close> completes; every row of its result has arithmetic mean 0
  and a least-squares line with slope and intercept 0 over the abscissae
  \<open>0, \<dots>, n - 1\<close>; and applying \<open>line_drift_subtraction\<close> or
  \<open>mean_drift_subtraction\<close> to the result returns it unchanged. The program computes
  in binary floating point, where the fitted coefficients are rounded (on the grid of
  the example below the intercept of the first row is \<open>5 / 6\<close>, which no binary
  fraction equals): of its results these equalities hold up to rounding only, and
  nothing here says more of them.
\<close>

lemma exact_line_drift_rows_mean_and_slope_zero:
  assumes "square g"
  shows "\<exists>g'. line_drift_subtraction g = Inr g' \<and> square g' \<and> length g' = length g
           \<and> list_all (\<lambda>r. np_mean r = 0 \<and> lstsq_line (arange (length g)) r = Inr (0, 0)) g'
           \<and> line_drift_subtraction g' = Inr g'
           \<and> mean_drift_subtraction g' = Inr g'"
proof -
  let ?n = "length g"
  let ?xs = "arange ?n"
  let ?g' = "map (line_residual ?xs) g"
  have n: "0 < ?n"
    using assms by (simp add: square_def)
  have run: "line_drift_subtraction g = Inr ?g'"
    by (rule line_drift_subtraction_square [OF assms])
  have sq: "square ?g'"
    using assms by (intro square_map_rows) (simp_all add: length_line_residual length_arange square_rows)
  have rows: "length r = ?n \<and> sum_list r = 0 \<and> dot ?xs r = 0" if "r \<in> set ?g'" for r
  proof -
    from that obtain zs where zs: "zs \<in> set g" "r = line_residual ?xs zs"
      by auto
    then have len: "length zs = ?n"
      using assms by (simp add: square_rows)
    then show ?thesis
      using arange_residual_orthogonal [OF len n] zs(2)
      by (simp add: length_line_residual length_arange)
  qed
  have fits: "list_all (\<lambda>r. np_mean r = 0 \<and> lstsq_line ?xs r = Inr (0, 0)) ?g'"
    unfolding list_all_iff
  proof
    fix r assume "r \<in> set ?g'"
    from rows [OF this] show "np_mean r = 0 \<and> lstsq_line ?xs r = Inr (0, 0)"
      by (simp add: np_mean_def lstsq_line_of_orthogonal length_arange)
  qed
  have "map (line_residual (arange (length ?g'))) ?g' = ?g'"
    using rows by (intro map_idI) (simp add: line_residual_fixed length_arange)
  then have again: "line_drift_subtraction ?g' = Inr ?g'"
    using line_drift_subtraction_square [OF sq] by simp
  have "map mean_residual ?g' = ?g'"
    using rows by (intro map_idI) (simp add: mean_residual_fixed)
  then have mean: "mean_drift_subtraction ?g' = Inr ?g'"
    using mean_drift_subtraction_square [OF sq] by simp
  show ?thesis
    using run sq fits again mean by auto
qed

lemma exact_line_drift_example:
  "square [[1, 2, 4], [3, - 1, 5], [0, 0, 7]]
   \<and> line_drift_subtraction [[1, 2, 4], [3, - 1, 5], [0, 0, 7]]
       = Inr [[1 / 6, - (1 / 3), 1 / 6], [5 / 3, - (10 / 3), 5 / 3], [7 / 6, - (7 / 3), 7 / 6]]
   \<and> list_all (\<lambda>r. np_mean r = 0 \<and> lstsq_line (arange 3) r = Inr (0, 0))
       [[1 / 6, - (1 / 3), 1 / 6], [5 / 3, - (10 / 3), 5 / 3], [7 / 6, - (7 / 3), 7 / 6]]
   \<and> line_drift_subtraction
         [[1 / 6, - (1 / 3), 1 / 6], [5 / 3, - (10 / 3), 5 / 3], [7 / 6, - (7 / 3), 7 / 6]]
       = Inr [[1 / 6, - (1 / 3), 1 / 6], [5 / 3, - (10 / 3), 5 / 3], [7 / 6, - (7 / 3), 7 / 6]]
   \<and> mean_drift_subtraction
         [[1 / 6, - (1 / 3), 1 / 6], [5 / 3, - (10 / 3), 5 / 3], [7 / 6, - (7 / 3), 7 / 6]]
       = Inr [[1 / 6, - (1 / 3), 1 / 6], [5 / 3, - (10 / 3), 5 / 3], [7 / 6, - (7 / 3), 7 / 6]]"
proof -
  have s: "square [[1, 2, 4], [3, - 1, 5], [0, 0, 7]]"
    by (simp add: square_def has_shape_def)
  have r: "line_drift_subtraction [[1, 2, 4], [3, - 1, 5], [0, 0, 7]]
       = Inr [[1 / 6, - (1 / 3), 1 / 6], [5 / 3, - (10 / 3), 5 / 3], [7 / 6, - (7 / 3), 7 / 6]]"
    by (simp add: line_drift_subtraction_def np_defs upt_rec Let_def)
  show ?thesis
    using s r exact_line_drift_rows_mean_and_slope_zero [OF s] by (simp add: numeral_3_eq_3)
qed

subsection \<open>Plane subtraction\<close>

lemma dot_replicate: "dot xs (replicate (length xs) y) = y * sum_list xs"
  by (induction xs) (simp_all add: dot_def algebra_simps)

lemma dot_replicate_replicate: "dot (replicate k y) (replicate k y) = of_nat k * (y * y)"
  by (induction k) (simp_all add: dot_def algebra_simps)

lemma sum_ravel_X: "sum_list (ravel (replicate k xs)) = of_nat k * sum_list xs"
  by (induction k) (simp_all add: ravel_def algebra_simps)

lemma sum_ravel_Y:
  "sum_list (ravel (map (\<lambda>y. replicate k y) ys)) = of_nat k * sum_list ys"
  by (induction ys) (simp_all add: ravel_def sum_list_replicate algebra_simps)

lemma length_ravel_X: "length (ravel (replicate k xs)) = k * length xs"
  by (induction k) (simp_all add: ravel_def)

lemma length_ravel_Y: "length (ravel (map (\<lambda>y. replicate k y) ys)) = length ys * k"
  by (induction ys) (simp_all add: ravel_def)

lemma dot_ravel_XX:
  "dot (ravel (replicate k xs)) (ravel (replicate k xs)) = of_nat k * dot xs xs"
proof (induction k)
  case 0
  then show ?case by (simp add: ravel_def dot_def)
next
  case (Suc k)
  have "dot (ravel (replicate (Suc k) xs)) (ravel (replicate (Suc k) xs))
      = dot xs xs + dot (ravel (replicate k xs)) (ravel (replicate k xs))"
    using dot_append [of xs xs] by (simp add: ravel_def)
  then show ?case by (simp add: Suc.IH algebra_simps)
qed

lemma dot_ravel_YY:
  "dot (ravel (map (\<lambda>y. replicate k y) ys)) (ravel (map (\<lambda>y. replicate k y) ys))
     = of_nat k * dot ys ys"
proof (induction ys)
  case Nil
  then show ?case by (simp add: ravel_def dot_def)
next
  case (Cons y ys)
  have "dot (ravel (map (\<lambda>y. replicate k y) (y # ys))) (ravel (map (\<lambda>y. replicate k y) (y # ys)))
      = dot (replicate k y) (replicate k y)
        + dot (ravel (map (\<lambda>y. replicate k y) ys)) (ravel (map (\<lambda>y. replicate k y) ys))"
    using dot_append [of "replicate k y" "replicate k y"] by (simp add: ravel_def)
  moreover have "dot (y # ys) (y # ys) = y * y + dot ys ys"
    by (simp add: dot_def)
  ultimately show ?case
    by (simp add: Cons.IH dot_replicate_replicate algebra_simps)
qed

lemma dot_ravel_XY:
  "dot (ravel (replicate (length ys) xs)) (ravel (map (\<lambda>y. replicate (length xs) y) ys))
     = sum_list xs * sum_list ys"
proof (induction ys)
  case Nil
  then show ?case by (simp add: ravel_def dot_def)
next
  case (Cons y ys)
  have "dot (ravel (replicate (length (y # ys)) xs))
          (ravel (map (\<lambda>y. replicate (length xs) y) (y # ys)))
      = dot xs (replicate (length xs) y)
        + dot (ravel (replicate (length ys) xs)) (ravel (map (\<lambda>y. replicate (length xs) y) ys))"
    using dot_append [of xs "replicate (length xs) y"] by (simp add: ravel_def)
  then show ?case
    by (simp add: Cons.IH dot_replicate algebra_simps)
qed

text \<open>The normal matrix of the plane fit on a square grid with at least two rows is regular.\<close>

lemma meshgrid_regular:
  assumes "2 \<le> n"
  defines "X \<equiv> ravel (fst (meshgrid (arange n) (arange n)))"
    and "Y \<equiv> ravel (snd (meshgrid (arange n) (arange n)))"
  defines "N \<equiv> (of_nat (n * n) :: rat)"
  shows "(N * dot X X - sum_list X * sum_list X) * (N * dot Y Y - sum_list Y * sum_list Y)
           - (N * dot X Y - sum_list X * sum_list Y) * (N * dot X Y - sum_list X * sum_list Y) \<noteq> 0"
proof -
  define k :: rat where "k = of_nat n"
  define T1 where "T1 = sum_list (arange n)"
  define T2 where "T2 = dot (arange n) (arange n)"
  have k: "k \<noteq> 0" using assms(1) by (simp add: k_def)
  have D: "k * T2 - T1 * T1 \<noteq> 0"
    using arange_spread [OF assms(1)] by (simp add: k_def T1_def T2_def)
  have sx: "sum_list X = k * T1"
    by (simp add: X_def meshgrid_def sum_ravel_X length_arange k_def T1_def)
  have sy: "sum_list Y = k * T1"
    by (simp add: Y_def meshgrid_def sum_ravel_Y length_arange k_def T1_def)
  have sxx: "dot X X = k * T2"
    by (simp add: X_def meshgrid_def dot_ravel_XX length_arange k_def T2_def)
  have syy: "dot Y Y = k * T2"
    by (simp add: Y_def meshgrid_def dot_ravel_YY length_arange k_def T2_def)
  have sxy: "dot X Y = T1 * T1"
    using dot_ravel_XY [of "arange n" "arange n"]
    by (simp add: X_def Y_def meshgrid_def length_arange T1_def)
  have N: "N = k * k" by (simp add: N_def k_def)
  have dxx: "N * dot X X - sum_list X * sum_list X = k * k * (k * T2 - T1 * T1)"
    by (simp add: N sx sxx algebra_simps)
  have dyy: "N * dot Y Y - sum_list Y * sum_list Y = k * k * (k * T2 - T1 * T1)"
    by (simp add: N sy syy algebra_simps)
  have dxy: "N * dot X Y - sum_list X * sum_list Y = 0"
    by (simp add: N sx sy sxy algebra_simps)
  show ?thesis
    unfolding dxx dyy dxy using k D by simp
qed

lemma sum_list_plane:
  "length xs = length ys \<Longrightarrow>
   sum_list (map2 (\<lambda>x y. a * x + b * y + c) xs ys)
     = a * sum_list xs + b * sum_list ys + c * of_nat (length xs)"
  for a b c :: rat
  by (induction xs ys rule: list_induct2) (simp_all add: algebra_simps)

lemma dot_plane_x:
  "length xs = length ys \<Longrightarrow>
   dot xs (map2 (\<lambda>x y. a * x + b * y + c) xs ys) = a * dot xs xs + b * dot xs ys + c * sum_list xs"
  by (induction xs ys rule: list_induct2) (simp_all add: dot_def algebra_simps)

lemma dot_plane_y:
  "length xs = length ys \<Longrightarrow>
   dot ys (map2 (\<lambda>x y. a * x + b * y + c) xs ys) = a * dot xs ys + b * dot ys ys + c * sum_list ys"
  by (induction xs ys rule: list_induct2) (simp_all add: dot_def algebra_simps)

lemma plane_normal_equations:
  fixes xs ys zs :: "rat list"
  defines "n \<equiv> of_nat (length zs)"
  defines "dxx \<equiv> n * dot xs xs - sum_list xs * sum_list xs"
    and "dyy \<equiv> n * dot ys ys - sum_list ys * sum_list ys"
    and "dxy \<equiv> n * dot xs ys - sum_list xs * sum_list ys"
  assumes lx: "length xs = length zs" and ly: "length ys = length zs"
    and det: "dxx * dyy - dxy * dxy \<noteq> 0"
  shows "sum_list (plane_residual xs ys zs) = 0
       \<and> dot xs (plane_residual xs ys zs) = 0
       \<and> dot ys (plane_residual xs ys zs) = 0"
proof -
  define sx where "sx = sum_list xs"
  define sy where "sy = sum_list ys"
  define sz where "sz = sum_list zs"
  define sxx where "sxx = dot xs xs"
  define syy where "syy = dot ys ys"
  define sxy where "sxy = dot xs ys"
  define sxz where "sxz = dot xs zs"
  define syz where "syz = dot ys zs"
  define dxz where "dxz = n * sxz - sx * sz"
  define dyz where "dyz = n * syz - sy * sz"
  define dt where "dt = dxx * dyy - dxy * dxy"
  define a where "a = (dxz * dyy - dyz * dxy) / dt"
  define b where "b = (dyz * dxx - dxz * dxy) / dt"
  define c where "c = (sz - a * sx - b * sy) / n"
  have dt: "dt \<noteq> 0" using det by (simp add: dt_def)
  have n0: "n \<noteq> 0"
  proof
    assume "n = 0"
    then have "zs = []" by (simp add: n_def)
    then have "xs = []" "ys = []" using lx ly by simp_all
    then show False using det by (simp add: dxx_def dyy_def dxy_def dot_def)
  qed
  have fit: "lstsq_plane xs ys zs = Inr (a, b, c)"
    using lx ly det
    by (simp add: lstsq_plane_def Let_def a_def b_def c_def dt_def dxz_def dyz_def
        dxx_def dyy_def dxy_def n_def sx_def sy_def sz_def sxz_def syz_def)
  have res: "plane_residual xs ys zs = map2 (-) zs (map2 (\<lambda>x y. a * x + b * y + c) xs ys)"
    by (simp add: plane_residual_def fit)
  have lxy: "length xs = length ys" using lx ly by simp
  have s0: "sum_list (plane_residual xs ys zs) = sz - (a * sx + b * sy + c * n)"
    using lx ly by (simp add: res sum_list_map2_minus sum_list_plane [OF lxy] sz_def sx_def sy_def n_def)
  have s1: "dot xs (plane_residual xs ys zs) = sxz - (a * sxx + b * sxy + c * sx)"
    using lx ly by (simp add: res dot_map2_minus dot_plane_x [OF lxy] sxz_def sxx_def sxy_def sx_def)
  have s2: "dot ys (plane_residual xs ys zs) = syz - (a * sxy + b * syy + c * sy)"
    using lx ly by (simp add: res dot_map2_minus dot_plane_y [OF lxy] syz_def sxy_def syy_def sy_def)
  have cn: "c * n = sz - a * sx - b * sy"
    using n0 by (simp add: c_def)
  have adt: "a * dt = dxz * dyy - dyz * dxy"
    using dt by (simp add: a_def)
  have bdt: "b * dt = dyz * dxx - dxz * dxy"
    using dt by (simp add: b_def)
  have "(a * dxx + b * dxy) * dt = dxz * dt"
  proof -
    have "(a * dxx + b * dxy) * dt = (a * dt) * dxx + (b * dt) * dxy"
      by (simp add: algebra_simps)
    also have "\<dots> = dxz * (dxx * dyy - dxy * dxy)"
      unfolding adt bdt by (simp add: algebra_simps)
    finally show ?thesis by (simp add: dt_def)
  qed
  then have ex: "a * dxx + b * dxy = dxz"
    using dt by simp
  have "(a * dxy + b * dyy) * dt = dyz * dt"
  proof -
    have "(a * dxy + b * dyy) * dt = (a * dt) * dxy + (b * dt) * dyy"
      by (simp add: algebra_simps)
    also have "\<dots> = dyz * (dxx * dyy - dxy * dxy)"
      unfolding adt bdt by (simp add: algebra_simps)
    finally show ?thesis by (simp add: dt_def)
  qed
  then have ey: "a * dxy + b * dyy = dyz"
    using dt by simp
  have z0: "sz - (a * sx + b * sy + c * n) = 0"
    using cn by simp
  have "n * (sxz - (a * sxx + b * sxy + c * sx)) = dxz - (a * dxx + b * dxy)"
  proof -
    have "n * (sxz - (a * sxx + b * sxy + c * sx))
        = n * sxz - a * (n * sxx) - b * (n * sxy) - (c * n) * sx"
      by (simp add: algebra_simps)
    also have "\<dots> = n * sxz - a * (n * sxx) - b * (n * sxy) - (sz - a * sx - b * sy) * sx"
      by (simp add: cn)
    also have "\<dots> = dxz - (a * dxx + b * dxy)"
      by (simp add: dxz_def dxx_def dxy_def sx_def sy_def sxx_def sxy_def algebra_simps)
    finally show ?thesis .
  qed
  then have z1: "sxz - (a * sxx + b * sxy + c * sx) = 0"
    using ex n0 by simp
  have "n * (syz - (a * sxy + b * syy + c * sy)) = dyz - (a * dxy + b * dyy)"
  proof -
    have "n * (syz - (a * sxy + b * syy + c * sy))
        = n * syz - a * (n * sxy) - b * (n * syy) - (c * n) * sy"
      by (simp add: algebra_simps)
    also have "\<dots> = n * syz - a * (n * sxy) - b * (n * syy) - (sz - a * sx - b * sy) * sy"
      by (simp add: cn)
    also have "\<dots> = dyz - (a * dxy + b * dyy)"
      by (simp add: dyz_def dyy_def dxy_def sx_def sy_def syy_def sxy_def algebra_simps)
    finally show ?thesis .
  qed
  then have z2: "syz - (a * sxy + b * syy + c * sy) = 0"
    using ey n0 by simp
  show ?thesis
    using s0 s1 s2 z0 z1 z2 by simp
qed

lemma plane_residual_single: "plane_residual [0] [0] [z] = [0]"
  by (simp add: plane_residual_def lstsq_plane_def dot_def Let_def)

lemma lstsq_plane_of_orthogonal:
  assumes "length xs = length r" and "length ys = length r"
    and "sum_list r = 0" and "dot xs r = 0" and "dot ys r = 0"
  shows "lstsq_plane xs ys r = Inr (0, 0, 0)"
  using assms by (simp add: lstsq_plane_def Let_def)

lemma same_rows_has_shape:
  "has_shape h r c \<Longrightarrow> has_shape p r c \<Longrightarrow> list_all2 (\<lambda>a b. length a = length b) h p"
  by (auto simp: has_shape_iff list_all2_conv_all_nth)

lemma ravel_map2_map2:
  "list_all2 (\<lambda>a b. length a = length b) h p \<Longrightarrow>
   ravel (map2 (map2 f) h p) = map2 f (ravel h) (ravel p)"
  by (induction h p rule: list_all2_induct) (simp_all add: ravel_def)

lemma bsub_square_elementwise:
  assumes h: "has_shape h n n" and p: "has_shape p n n" and n: "0 < n"
  shows "bsub h p = Inr (map2 (map2 (-)) h p)"
proof -
  have sh: "shape h = (n, n)" "shape p = (n, n)"
    using assms by (simp_all add: shape_of_has_shape)
  have lh: "length h = n" "length p = n"
    using h p by (simp_all add: has_shape_iff)
  have row: "map (\<lambda>j. bget h i j - bget p i j) [0..<n] = map2 (-) (h ! i) (p ! i)" if "i < n" for i
  proof (rule nth_equalityI)
    show "length (map (\<lambda>j. bget h i j - bget p i j) [0..<n]) = length (map2 (-) (h ! i) (p ! i))"
      using that h p by (simp add: has_shape_nth)
  next
    fix j assume "j < length (map (\<lambda>j. bget h i j - bget p i j) [0..<n])"
    then have j: "j < n" by simp
    have "bget h i j = h ! i ! j" "bget p i j = p ! i ! j"
      using that j by (auto simp: bget_def sh)
    then show "map (\<lambda>j. bget h i j - bget p i j) [0..<n] ! j = map2 (-) (h ! i) (p ! i) ! j"
      using that j h p by (simp add: has_shape_nth)
  qed
  have "map (\<lambda>i. map (\<lambda>j. bget h i j - bget p i j) [0..<n]) [0..<n] = map2 (map2 (-)) h p"
    by (rule nth_equalityI) (simp_all add: lh row)
  then show ?thesis
    by (simp add: bsub_def sh bcompat_def bdim_def)
qed

lemma map2_minus_zero_plane:
  assumes "list_all2 (\<lambda>a b. length a = length b) h X"
    and "list_all2 (\<lambda>a b. length a = length b) X Y"
  shows "map2 (map2 (-)) h (plane 0 0 0 X Y) = h"
  using assms
proof (induction h X arbitrary: Y rule: list_all2_induct)
  case Nil
  then show ?case by (simp add: plane_def)
next
  case (Cons r h x X)
  from Cons.prems obtain y Y' where Y: "Y = y # Y'" "length x = length y"
    "list_all2 (\<lambda>a b. length a = length b) X Y'"
    by (cases Y) auto
  have "map2 (-) r (map2 (\<lambda>x y. 0) x y) = r"
    using Cons.hyps(1) Y(2) by (intro nth_equalityI) simp_all
  then show ?case
    using Cons.IH [OF Y(3)] by (simp add: Y(1) plane_def)
qed

text \<open>
  On a square grid \<open>common_plane_subtraction\<close> returns the residual of the fit, element by
  element.
\<close>

lemma common_plane_subtraction_square_residual:
  assumes "square h"
  defines "X \<equiv> fst (meshgrid (arange (length h)) (arange (length h)))"
    and "Y \<equiv> snd (meshgrid (arange (length h)) (arange (length h)))"
  shows "\<exists>h'. common_plane_subtraction h = Inr h' \<and> square h' \<and> length h' = length h
           \<and> ravel h' = plane_residual (ravel X) (ravel Y) (ravel h)"
proof -
  let ?n = "length h"
  have n: "0 < ?n" and hs: "has_shape h ?n ?n"
    using assms(1) by (simp_all add: square_def)
  have m: "meshgrid (arange ?n) (arange ?n) = (X, Y)"
    by (simp add: X_def Y_def)
  then have XY: "has_shape X ?n ?n" "has_shape Y ?n ?n"
    using meshgrid_shape by blast+
  have len: "length (ravel X) = length (ravel h)" "length (ravel Y) = length (ravel h)"
    using XY hs by (simp_all add: length_ravel_has_shape)
  then obtain a b c where fit: "lstsq_plane (ravel X) (ravel Y) (ravel h) = Inr (a, b, c)"
    using lstsq_plane_total by blast
  let ?h' = "map2 (map2 (-)) h (plane a b c X Y)"
  have P: "has_shape (plane a b c X Y) ?n ?n"
    by (rule has_shape_plane [OF XY])
  have run: "common_plane_subtraction h = Inr ?h'"
    using assms(1) m fit bsub_square_elementwise [OF hs P n]
    by (simp add: common_plane_subtraction_def square_shape)
  obtain r where "common_plane_subtraction h = Inr r" "square r" "length r = ?n"
    using common_plane_subtraction_square [OF assms(1)] by blast
  with run have sq: "square ?h'" "length ?h' = ?n" by simp_all
  have "ravel ?h' = map2 (-) (ravel h) (ravel (plane a b c X Y))"
    by (rule ravel_map2_map2 [OF same_rows_has_shape [OF hs P]])
  also have "ravel (plane a b c X Y) = map2 (\<lambda>x y. a * x + b * y + c) (ravel X) (ravel Y)"
    unfolding plane_def by (rule ravel_map2_map2 [OF same_rows_has_shape [OF XY]])
  finally have "ravel ?h' = plane_residual (ravel X) (ravel Y) (ravel h)"
    by (simp add: plane_residual_def fit)
  with run sq show ?thesis by blast
qed

lemma square_residual_orthogonal:
  assumes "0 < n" and "length zs = n * n"
  defines "X \<equiv> ravel (fst (meshgrid (arange n) (arange n)))"
    and "Y \<equiv> ravel (snd (meshgrid (arange n) (arange n)))"
  shows "sum_list (plane_residual X Y zs) = 0 \<and> dot X (plane_residual X Y zs) = 0
       \<and> dot Y (plane_residual X Y zs) = 0"
proof (cases "n = 1")
  case True
  then obtain z where z: "zs = [z]"
    using assms(2) by (cases zs) auto
  have "X = [0]" "Y = [0]"
    using True by (simp_all add: X_def Y_def meshgrid_def arange_def ravel_def)
  then show ?thesis
    by (simp add: z plane_residual_single dot_def)
next
  case False
  then have n2: "2 \<le> n" using assms(1) by simp
  have lx: "length X = length zs" and ly: "length Y = length zs"
    using assms(2) by (simp_all add: X_def Y_def meshgrid_def length_ravel_X length_ravel_Y length_arange)
  show ?thesis
    using meshgrid_regular [OF n2] assms(2)
    by (intro plane_normal_equations [OF lx ly]) (simp add: X_def Y_def)
qed

lemma common_plane_subtraction_idempotent_square:
  assumes "square h" and "common_plane_subtraction h = Inr h'"
  shows "common_plane_subtraction h' = Inr h'"
proof -
  let ?n = "length h"
  define X where "X = fst (meshgrid (arange ?n) (arange ?n))"
  define Y where "Y = snd (meshgrid (arange ?n) (arange ?n))"
  have n: "0 < ?n" and hs: "has_shape h ?n ?n"
    using assms(1) by (simp_all add: square_def)
  from common_plane_subtraction_square_residual [OF assms(1)] assms(2)
  have sq: "square h'" and len: "length h' = ?n"
    and rav: "ravel h' = plane_residual (ravel X) (ravel Y) (ravel h)"
    by (auto simp: X_def Y_def)
  have hs': "has_shape h' ?n ?n"
    using sq len by (simp add: square_def)
  have m: "meshgrid (arange ?n) (arange ?n) = (X, Y)"
    by (simp add: X_def Y_def)
  then have XY: "has_shape X ?n ?n" "has_shape Y ?n ?n"
    using meshgrid_shape by blast+
  have lz: "length (ravel h) = ?n * ?n"
    using hs by (simp add: length_ravel_has_shape)
  have orth: "sum_list (ravel h') = 0 \<and> dot (ravel X) (ravel h') = 0 \<and> dot (ravel Y) (ravel h') = 0"
    using square_residual_orthogonal [OF n lz] by (simp add: rav X_def Y_def)
  have lens: "length (ravel X) = length (ravel h')" "length (ravel Y) = length (ravel h')"
    using XY hs' by (simp_all add: length_ravel_has_shape)
  have fit: "lstsq_plane (ravel X) (ravel Y) (ravel h') = Inr (0, 0, 0)"
    using orth lens by (intro lstsq_plane_of_orthogonal) simp_all
  have P: "has_shape (plane 0 0 0 X Y) ?n ?n"
    by (rule has_shape_plane [OF XY])
  have "bsub h' (plane 0 0 0 X Y) = Inr (map2 (map2 (-)) h' (plane 0 0 0 X Y))"
    by (rule bsub_square_elementwise [OF hs' P n])
  also have "map2 (map2 (-)) h' (plane 0 0 0 X Y) = h'"
    by (rule map2_minus_zero_plane [OF same_rows_has_shape [OF hs' XY(1)] same_rows_has_shape [OF XY]])
  finally have "bsub h' (plane 0 0 0 X Y) = Inr h'" .
  then show ?thesis
    using sq len m fit by (simp add: common_plane_subtraction_def square_shape)
qed

text \<open>
  C1 (the code departs from the claim). The claim: \<open>common_plane_subtraction\<close> subtracts
  only the tilt \<open>a * X + b * Y\<close> of the best-fit plane and leaves the constant \<open>c\<close> in
  the grid, as the routine's docstring says. The routine subtracts \<open>a * X + b * Y + c\<close>:
  on the grid \<open>[[1, 2], [3, 4]]\<close>, whose heights are \<open>1 * x + 2 * y + 1\<close>, the fit is
  \<open>(a, b, c) = (1, 2, 1)\<close> and the result is the zero grid, not the grid of ones that
  the claim describes.
\<close>

theorem common_plane_subtraction_removes_constant:
  "lstsq_plane [0, 1, 0, 1] [0, 0, 1, 1] (ravel [[1, 2], [3, 4]]) = Inr (1, 2, 1)
   \<and> common_plane_subtraction [[1, 2], [3, 4]] = Inr [[0, 0], [0, 0]]
   \<and> common_plane_subtraction [[1, 2], [3, 4]] \<noteq> Inr [[1, 1], [1, 1]]"
  by (simp add: common_plane_subtraction_def np_defs upt_rec)

text \<open>
  C9 (the code departs from the claim). The claim: applying \<open>common_plane_subtraction\<close>
  twice gives what applying it once gives, on every non-empty grid. On the grid
  \<open>[[0, 1]]\<close> of one row and two columns the first application returns a grid of two
  rows, and the second application changes that grid. (On square grids the two
  applications agree in exact arithmetic: \<open>common_plane_subtraction_idempotent_square\<close>.)
\<close>

theorem common_plane_subtraction_twice_differs:
  "common_plane_subtraction [[0, 1]] = Inr [[0, 1], [- 1, 0]]
   \<and> common_plane_subtraction [[0, 1], [- 1, 0]] = Inr [[0, 0], [0, 0]]"
  by (simp add: common_plane_subtraction_def np_defs upt_rec)

subsection \<open>The fitted line and plane are least-squares solutions\<close>

text \<open>
  Where the columns of the design matrix are independent, the coefficients that
  \<open>lstsq_line\<close> and \<open>lstsq_plane\<close> return make the sum of squared residuals least.
\<close>

lemma line_error_expand:
  fixes xs zs :: "rat list"
  assumes "length xs = length zs"
  shows "line_error xs zs m' q' =
     line_error xs zs m q
     + 2 * ((m - m') * dot xs (map2 (-) zs (map (\<lambda>x. m * x + q) xs))
            + (q - q') * sum_list (map2 (-) zs (map (\<lambda>x. m * x + q) xs)))
     + sum_list (map (\<lambda>x. ((m - m') * x + (q - q')) * ((m - m') * x + (q - q'))) xs)"
  using assms
  by (induction xs zs rule: list_induct2) (simp_all add: line_error_def dot_def algebra_simps)

lemma sum_list_squares_nonneg: "0 \<le> sum_list (map (\<lambda>x. f x * f x) xs)" for f :: "rat \<Rightarrow> rat"
  by (induction xs) simp_all

lemma lstsq_line_least_squares:
  fixes xs zs :: "rat list"
  assumes len: "length xs = length zs"
    and d: "of_nat (length xs) * dot xs xs - sum_list xs * sum_list xs \<noteq> 0"
    and fit: "lstsq_line xs zs = Inr (m, q)"
  shows "line_error xs zs m q \<le> line_error xs zs m' q'"
proof -
  have res: "line_residual xs zs = map2 (-) zs (map (\<lambda>x. m * x + q) xs)"
    by (simp add: line_residual_def fit)
  from residual_normal_equations [OF len d]
  have "sum_list (map2 (-) zs (map (\<lambda>x. m * x + q) xs)) = 0"
    and "dot xs (map2 (-) zs (map (\<lambda>x. m * x + q) xs)) = 0"
    by (simp_all add: res)
  then have "line_error xs zs m' q' =
      line_error xs zs m q
      + sum_list (map (\<lambda>x. ((m - m') * x + (q - q')) * ((m - m') * x + (q - q'))) xs)"
    using line_error_expand [OF len, of m' q' m q] by simp
  then show ?thesis
    using sum_list_squares_nonneg [of "\<lambda>x. (m - m') * x + (q - q')" xs] by simp
qed

lemma plane_error_expand:
  fixes xs ys zs :: "rat list"
  assumes "length xs = length ys" and "length ys = length zs"
  shows "plane_error xs ys zs a' b' c' =
     plane_error xs ys zs a b c
     + 2 * ((a - a') * dot xs (map2 (-) zs (map2 (\<lambda>x y. a * x + b * y + c) xs ys))
            + (b - b') * dot ys (map2 (-) zs (map2 (\<lambda>x y. a * x + b * y + c) xs ys))
            + (c - c') * sum_list (map2 (-) zs (map2 (\<lambda>x y. a * x + b * y + c) xs ys)))
     + sum_list (map2 (\<lambda>x y. ((a - a') * x + (b - b') * y + (c - c'))
                              * ((a - a') * x + (b - b') * y + (c - c'))) xs ys)"
  using assms
  by (induction xs ys zs rule: list_induct3) (simp_all add: plane_error_def dot_def algebra_simps)

lemma sum_list_squares2_nonneg:
  "0 \<le> sum_list (map2 (\<lambda>x y. f x y * f x y) xs ys)" for f :: "rat \<Rightarrow> rat \<Rightarrow> rat"
proof -
  have "\<forall>v\<in>set (map2 (\<lambda>x y. f x y * f x y) xs ys). 0 \<le> v"
    by (auto simp: set_zip)
  then show ?thesis
    by (intro sum_list_nonneg) blast
qed

lemma lstsq_plane_least_squares:
  fixes xs ys zs :: "rat list"
  assumes lx: "length xs = length zs" and ly: "length ys = length zs"
    and det: "(of_nat (length zs) * dot xs xs - sum_list xs * sum_list xs)
              * (of_nat (length zs) * dot ys ys - sum_list ys * sum_list ys)
              - (of_nat (length zs) * dot xs ys - sum_list xs * sum_list ys)
                * (of_nat (length zs) * dot xs ys - sum_list xs * sum_list ys) \<noteq> 0"
    and fit: "lstsq_plane xs ys zs = Inr (a, b, c)"
  shows "plane_error xs ys zs a b c \<le> plane_error xs ys zs a' b' c'"
proof -
  have res: "plane_residual xs ys zs = map2 (-) zs (map2 (\<lambda>x y. a * x + b * y + c) xs ys)"
    by (simp add: plane_residual_def fit)
  from plane_normal_equations [OF lx ly det]
  have "sum_list (map2 (-) zs (map2 (\<lambda>x y. a * x + b * y + c) xs ys)) = 0"
    and "dot xs (map2 (-) zs (map2 (\<lambda>x y. a * x + b * y + c) xs ys)) = 0"
    and "dot ys (map2 (-) zs (map2 (\<lambda>x y. a * x + b * y + c) xs ys)) = 0"
    by (simp_all add: res)
  moreover have "length xs = length ys"
    using lx ly by simp
  ultimately have "plane_error xs ys zs a' b' c' =
      plane_error xs ys zs a b c
      + sum_list (map2 (\<lambda>x y. ((a - a') * x + (b - b') * y + (c - c'))
                              * ((a - a') * x + (b - b') * y + (c - c'))) xs ys)"
    using plane_error_expand [OF _ ly, of xs a' b' c' a b c] by simp
  then show ?thesis
    using sum_list_squares2_nonneg [of "\<lambda>x y. (a - a') * x + (b - b') * y + (c - c')" xs ys]
    by simp
qed


subsection \<open>The script: stages and configuration errors\<close>

lemma call_routine_Inr:
  "f (height_values st) = Inr h \<Longrightarrow>
   call_routine c f st = Inr (st\<lparr>calls := calls st @ [c], height_values := h\<rparr>)"
  by (simp add: call_routine_def)

lemma call_routine_Inl:
  "f (height_values st) = Inl e \<Longrightarrow> call_routine c f st = Inl (e, st\<lparr>calls := calls st @ [c]\<rparr>)"
  by (simp add: call_routine_def)

lemma call_routine_ok:
  assumes "pre_render sq st" and "\<not> is_plot c"
    and "\<And>h. square h \<Longrightarrow> \<exists>h'. f h = Inr h' \<and> square h' \<and> length h' = length h"
  shows "stage_ok sq (call_routine c f st)"
proof (cases "f (height_values st)")
  case (Inl e)
  then have "sq \<Longrightarrow> False"
    using assms(1) assms(3) [of "height_values st"] by (auto simp: pre_render_def)
  then show ?thesis
    using assms(1,2) Inl by (auto simp: call_routine_Inl stage_ok_def pre_render_def)
next
  case (Inr h)
  then have "sq \<Longrightarrow> square h"
    using assms(1) assms(3) [of "height_values st"] by (auto simp: pre_render_def)
  then show ?thesis
    using assms(1,2) Inr by (auto simp: call_routine_Inr stage_ok_def pre_render_def)
qed

lemma and_then_ok:
  assumes "stage_ok sq r" and "\<And>st. pre_render sq st \<Longrightarrow> stage_ok sq (f st)"
  shows "stage_ok sq (and_then r f)"
  using assms by (cases r) (auto simp: and_then_def stage_ok_def)

lemma warn_without_plane_ok: "pre_render sq st \<Longrightarrow> stage_ok sq (warn_without_plane st)"
  by (simp add: warn_without_plane_def stage_ok_def pre_render_def)

lemma raise_ok: "pre_render sq st \<Longrightarrow> stage_ok sq (Inl (TypeError msg, st))"
  by (simp add: stage_ok_def pre_render_def)

lemma return_ok: "pre_render sq st \<Longrightarrow> stage_ok sq (Inr st)"
  by (simp add: stage_ok_def)

lemmas routine_ok =
  call_routine_ok [where f = common_plane_subtraction, OF _ _ common_plane_subtraction_square]
  call_routine_ok [where f = line_drift_subtraction, OF _ _ line_drift_subtraction_square_ex]
  call_routine_ok [where f = mean_drift_subtraction, OF _ _ mean_drift_subtraction_square_ex]
  call_routine_ok [where f = shift_min, OF _ _ shift_min_square]
  call_routine_ok [where f = shift_mean, OF _ _ shift_mean_square]

lemma plane_stage_ok: "pre_render sq st \<Longrightarrow> stage_ok sq (plane_stage s st)"
  by (simp add: plane_stage_def routine_ok raise_ok return_ok)

lemma fallback_ok:
  "pre_render sq st \<Longrightarrow>
   stage_ok sq (and_then
     (and_then (call_routine Call_common_plane_subtraction common_plane_subtraction st)
        (call_routine Call_line_drift_subtraction line_drift_subtraction))
     warn_without_plane)"
  by (intro and_then_ok routine_ok warn_without_plane_ok) simp_all

lemma drift_stage_ok: "pre_render sq st \<Longrightarrow> stage_ok sq (drift_stage s st)"
  by (simp add: drift_stage_def routine_ok raise_ok return_ok fallback_ok)

lemma shift_stage_ok: "pre_render sq st \<Longrightarrow> stage_ok sq (shift_stage s st)"
  by (simp add: shift_stage_def routine_ok raise_ok)

lemma initial_ok: "pre_render (square g) (initial g)"
  by (simp add: pre_render_def initial_def)

lemma corrections_ok:
  "stage_ok (square g)
     (and_then (and_then (plane_stage s (initial g)) (drift_stage s)) (shift_stage s))"
  by (intro and_then_ok plane_stage_ok drift_stage_ok shift_stage_ok initial_ok)

lemma and_then_raises:
  assumes "(\<exists>x. r = Inl x) \<or> (\<forall>st. \<exists>x. f st = Inl x)"
  shows "\<exists>x. and_then r f = Inl x"
  using assms by (cases r) (auto simp: and_then_def)

lemma invalid_settings_raise:
  assumes "\<not> valid_settings s"
  shows "\<exists>x. and_then (and_then (plane_stage s (initial g)) (drift_stage s)) (shift_stage s) = Inl x"
proof -
  consider "lower (setting_common_plane_subtraction s) \<notin> {''yes'', ''no''}"
    | "lower (setting_line_drift_correction s) \<notin> {''linear'', ''mean'', ''no''}"
    | "lower (setting_data_shift s) \<notin> {''minimum'', ''mean''}"
    using assms by (auto simp: valid_settings_def)
  then show ?thesis
  proof cases
    case 1
    then have "\<exists>x. plane_stage s (initial g) = Inl x"
      by (simp add: plane_stage_def)
    then have "\<exists>x. and_then (plane_stage s (initial g)) (drift_stage s) = Inl x"
      using and_then_raises by blast
    then show ?thesis
      using and_then_raises by blast
  next
    case 2
    then have "\<forall>st. \<exists>x. drift_stage s st = Inl x"
      by (simp add: drift_stage_def)
    then have "\<exists>x. and_then (plane_stage s (initial g)) (drift_stage s) = Inl x"
      using and_then_raises by blast
    then show ?thesis
      using and_then_raises by blast
  next
    case 3
    then have "\<forall>st. \<exists>x. shift_stage s st = Inl x"
      by (simp add: shift_stage_def)
    then show ?thesis
      using and_then_raises by blast
  qed
qed

text \<open>
  Lines 24-60 with an invalid field: an exception before either plot; on a square grid
  every correction routine called on the way returns, and the exception is the
  script's own \<^verbatim>\<open>TypeError\<close>.
\<close>

lemma invalid_settings_main:
  assumes "\<not> valid_settings s"
  shows "\<exists>e st. main s g = Inl (e, st) \<and> filter is_plot (calls st) = []
           \<and> (square g \<longrightarrow> (\<exists>msg. e = TypeError msg))"
proof -
  let ?r = "and_then (and_then (plane_stage s (initial g)) (drift_stage s)) (shift_stage s)"
  obtain e st where r: "?r = Inl (e, st)"
    using invalid_settings_raise [OF assms, of g] by fastforce
  have "stage_ok (square g) ?r"
    by (rule corrections_ok)
  then have "filter is_plot (calls st) = [] \<and> (square g \<longrightarrow> (\<exists>msg. e = TypeError msg))"
    by (simp add: r stage_ok_def)
  moreover have "main s g = Inl (e, st)"
    unfolding main_def r by (simp add: and_then_def)
  ultimately show ?thesis by blast
qed

text \<open>
  The whole run with an invalid field, on every grid: it ends in an exception; neither
  plotting function has been called; and the only call on the results writer is the
  set-up of line 16, made before the settings are read when a results file is asked
  for, so that nothing has been written to the file and it has not been closed. On every
  square grid with at least one element the exception is the configuration error.
\<close>

lemma invalid_settings_abort_before_output:
  assumes "\<not> valid_settings s"
  shows "\<exists>e st. run results s g = (results_setup results, Inl (e, st))
           \<and> filter is_plot (calls st) = []
           \<and> (square g \<longrightarrow> is_configuration_error e)"
proof -
  obtain e st where m: "main s g = Inl (e, st)" "filter is_plot (calls st) = []"
    "square g \<longrightarrow> (\<exists>msg. e = TypeError msg)"
    using invalid_settings_main [OF assms, of g] by blast
  have "run results s g = (results_setup results, Inl (e, st))"
    by (simp add: run_def m(1))
  moreover have "square g \<longrightarrow> is_configuration_error e"
    using m(3) by auto
  ultimately show ?thesis
    using m(2) by blast
qed

lemma invalid_settings_abort_before_output_example:
  "\<not> valid_settings \<lparr>setting_common_plane_subtraction = ''no'',
            setting_line_drift_correction = ''linear'', setting_data_shift = ''Invalid''\<rparr>
   \<and> square [[1, 2], [3, 7]]
   \<and> run (Some ''results.txt'') \<lparr>setting_common_plane_subtraction = ''no'',
            setting_line_drift_correction = ''linear'', setting_data_shift = ''Invalid''\<rparr>
        [[1, 2], [3, 7]]
      = ([Results_setup ''results.txt''],
         Inl (TypeError ''Variable inserted for 'data_shift' in settings.json is not valid. Please insert 'minimum' or 'mean' (variable is not case-sensitive).'',
              \<lparr>height_values = [[0, 0], [0, 0]],
               calls = [Call_common_plane_subtraction, Call_line_drift_subtraction],
               warned = [UserWarning fallback_text],
               warning_list = [''UserWarning: '' @ fallback_text]\<rparr>))"
proof -
  have v: "\<not> valid_settings \<lparr>setting_common_plane_subtraction = ''no'',
            setting_line_drift_correction = ''linear'', setting_data_shift = ''Invalid''\<rparr>"
    by (simp add: valid_settings_def lower_def lower_char_def)
  have s: "square [[1, 2], [3, 7]]"
    by (simp add: square_def has_shape_def)
  have r: "main \<lparr>setting_common_plane_subtraction = ''no'',
            setting_line_drift_correction = ''linear'', setting_data_shift = ''Invalid''\<rparr>
        [[1, 2], [3, 7]]
      = Inl (TypeError ''Variable inserted for 'data_shift' in settings.json is not valid. Please insert 'minimum' or 'mean' (variable is not case-sensitive).'',
              \<lparr>height_values = [[0, 0], [0, 0]],
               calls = [Call_common_plane_subtraction, Call_line_drift_subtraction],
               warned = [UserWarning fallback_text],
               warning_list = [''UserWarning: '' @ fallback_text]\<rparr>)"
    by (simp add: script_defs common_plane_subtraction_def line_drift_subtraction_def np_defs
        upt_rec fallback_text_def Let_def)
  show ?thesis
    using v s
      invalid_settings_abort_before_output [OF v, of "Some ''results.txt''" "[[1, 2], [3, 7]]"]
    by (simp add: run_def r results_setup_def)
qed

text \<open>
  C6 (the code departs from the claim). The claim: whenever one of the three enumerated
  fields holds, after \<open>lower\<close>, a value outside its set, the run raises the
  configuration error, with neither plotting function called and no output written; in
  particular for \<open>data_shift\<close> being \<open>Invalid\<close>. With plane subtraction requested,
  no drift correction and \<open>data_shift\<close> being \<open>Invalid\<close>, the grid
  \<open>[[0, 1, 2], [3, 4, 5]]\<close> of shape \<open>(2, 3)\<close> ends the run at line 25, in the
  \<^verbatim>\<open>ValueError\<close> that \<open>common_plane_subtraction\<close> raises on it, before line 57 can raise
  the configuration error.
\<close>

theorem invalid_data_shift_on_non_square_grid:
  "lower ''Invalid'' \<noteq> ''minimum'' \<and> lower ''Invalid'' \<noteq> ''mean''
   \<and> main \<lparr>setting_common_plane_subtraction = ''yes'',
            setting_line_drift_correction = ''no'', setting_data_shift = ''Invalid''\<rparr>
        [[0, 1, 2], [3, 4, 5]]
      = Inl (ValueError,
             \<lparr>height_values = [[0, 1, 2], [3, 4, 5]],
              calls = [Call_common_plane_subtraction], warned = [], warning_list = []\<rparr>)"
  by (simp add: script_defs common_plane_subtraction_def np_defs upt_rec Let_def)

text \<open>
  C7 (the code departs from the claim). The claim: the message of every configuration
  error names the offending field and lists the values allowed for it; for
  \<open>line_drift_correction\<close> those are linear, mean and no. The message raised for a wrong
  \<open>line_drift_correction\<close> names \<open>linear_drift_subtraction\<close> and lists yes and no.
\<close>

theorem line_drift_correction_error_message:
  "raised (main \<lparr>setting_common_plane_subtraction = ''no'',
       setting_line_drift_correction = ''quadratic'',
       setting_data_shift = ''minimum''\<rparr> [[1]])
     = Some (TypeError ''Variable inserted for 'linear_drift_subtraction' in settings.json is not valid. Please insert 'yes' or 'no' (variable is not case-sensitive).'')
   \<and> \<not> mentions ''line_drift_correction'' ''Variable inserted for 'linear_drift_subtraction' in settings.json is not valid. Please insert 'yes' or 'no' (variable is not case-sensitive).''
   \<and> \<not> mentions ''mean'' ''Variable inserted for 'linear_drift_subtraction' in settings.json is not valid. Please insert 'yes' or 'no' (variable is not case-sensitive).''"
  by (simp add: script_defs)

subsection \<open>The script: drift correction without plane subtraction\<close>

lemma and_then_Inr: "and_then (Inr st) f = f st"
  by (simp add: and_then_def)

lemma and_then_Inl: "and_then (Inl x) f = Inl x"
  by (simp add: and_then_def)

lemma fallback_run:
  assumes "lower (setting_line_drift_correction s) = ''linear''
           \<or> lower (setting_line_drift_correction s) = ''mean''"
    and "lower (setting_common_plane_subtraction s) = ''no''"
  shows "main s g =
     (case common_plane_subtraction g of
        Inl e \<Rightarrow>
          Inl (e, \<lparr>height_values = g, calls = [Call_common_plane_subtraction],
                   warned = [], warning_list = []\<rparr>)
      | Inr g1 \<Rightarrow>
          (case line_drift_subtraction g1 of
             Inl e \<Rightarrow>
               Inl (e, \<lparr>height_values = g1,
                        calls = [Call_common_plane_subtraction, Call_line_drift_subtraction],
                        warned = [], warning_list = []\<rparr>)
           | Inr g2 \<Rightarrow>
               and_then
                 (shift_stage s
                    \<lparr>height_values = g2,
                     calls = [Call_common_plane_subtraction, Call_line_drift_subtraction],
                     warned = [UserWarning fallback_text],
                     warning_list = [''UserWarning: '' @ fallback_text]\<rparr>)
                 plot_stage))"
proof -
  have p: "plane_stage s (initial g) = Inr (initial g)"
    using assms(2) by (simp add: plane_stage_def)
  have d: "drift_stage s st =
      and_then
        (and_then (call_routine Call_common_plane_subtraction common_plane_subtraction st)
           (call_routine Call_line_drift_subtraction line_drift_subtraction))
        warn_without_plane" for st
    using assms by (auto simp: drift_stage_def)
  have m: "main s g = and_then (and_then (drift_stage s (initial g)) (shift_stage s)) plot_stage"
    unfolding main_def p by (simp add: and_then_Inr)
  show ?thesis
  proof (cases "common_plane_subtraction g")
    case (Inl e)
    then show ?thesis
      unfolding m d
      by (simp add: call_routine_def initial_def and_then_Inl and_then_Inr)
  next
    case g1: (Inr g1)
    show ?thesis
    proof (cases "line_drift_subtraction g1")
      case (Inl e)
      then show ?thesis
        unfolding m d using g1
        by (simp add: call_routine_def initial_def and_then_Inl and_then_Inr)
    next
      case (Inr g2)
      then show ?thesis
        unfolding m d using g1
        by (simp add: call_routine_def initial_def and_then_Inl and_then_Inr
            warn_without_plane_def fallback_text_def)
    qed
  qed
qed

lemma shift_stage_calls:
  "set (calls (final_state (shift_stage s st))) \<subseteq> set (calls st) \<union> {Call_shift_min, Call_shift_mean}"
  by (auto simp: shift_stage_def call_routine_def final_state_def Let_def split: sum.splits)

lemma shift_stage_warnings:
  "warned (final_state (shift_stage s st)) = warned st
   \<and> warning_list (final_state (shift_stage s st)) = warning_list st"
  by (auto simp: shift_stage_def call_routine_def final_state_def Let_def split: sum.splits)

lemma then_plot_warnings:
  "warned (final_state (and_then r plot_stage)) = warned (final_state r)
   \<and> warning_list (final_state (and_then r plot_stage)) = warning_list (final_state r)"
  by (cases r) (auto simp: and_then_def plot_stage_def final_state_def)

lemma then_plot_calls:
  "set (calls (final_state (and_then r plot_stage))) \<subseteq> set (calls (final_state r)) \<union> Collect is_plot"
  by (cases r) (auto simp: and_then_def plot_stage_def final_state_def)

lemma fallback_never_calls_mean_drift:
  assumes "lower (setting_line_drift_correction s) = ''linear''
           \<or> lower (setting_line_drift_correction s) = ''mean''"
    and "lower (setting_common_plane_subtraction s) = ''no''"
  shows "Call_mean_drift_subtraction \<notin> set (calls (final_state (main s g)))"
proof -
  have *: "Call_mean_drift_subtraction \<notin> set (calls (final_state (and_then (shift_stage s st) plot_stage)))"
    if "Call_mean_drift_subtraction \<notin> set (calls st)" for st
    using that then_plot_calls [of "shift_stage s st"] shift_stage_calls [of s st] by auto
  show ?thesis
    unfolding fallback_run [OF assms]
    by (auto simp: final_state_def [of "Inl x" for x] * split: sum.splits)
qed


text \<open>
  C2. Whenever \<open>line_drift_correction\<close> is linear or mean and
  \<open>common_plane_subtraction\<close> is no (each whatever the case), the run is: call
  \<open>common_plane_subtraction\<close>; if it returns, call \<open>line_drift_subtraction\<close> on its
  result; if that returns, record the warning and only then enter the vertical-shift
  stage with the twice-corrected grid, and the plots after it. The run is the same for
  either drift variant, and \<open>mean_drift_subtraction\<close> is never called.
\<close>
theorem fallback_dispatches_to_line_drift:
  assumes "lower (setting_line_drift_correction s) = ''linear''
           \<or> lower (setting_line_drift_correction s) = ''mean''"
    and "lower (setting_common_plane_subtraction s) = ''no''"
  shows "main s g =
     (case common_plane_subtraction g of
        Inl e \<Rightarrow>
          Inl (e, \<lparr>height_values = g, calls = [Call_common_plane_subtraction],
                   warned = [], warning_list = []\<rparr>)
      | Inr g1 \<Rightarrow>
          (case line_drift_subtraction g1 of
             Inl e \<Rightarrow>
               Inl (e, \<lparr>height_values = g1,
                        calls = [Call_common_plane_subtraction, Call_line_drift_subtraction],
                        warned = [], warning_list = []\<rparr>)
           | Inr g2 \<Rightarrow>
               and_then
                 (shift_stage s
                    \<lparr>height_values = g2,
                     calls = [Call_common_plane_subtraction, Call_line_drift_subtraction],
                     warned = [UserWarning fallback_text],
                     warning_list = [''UserWarning: '' @ fallback_text]\<rparr>)
                 plot_stage))
     \<and> Call_mean_drift_subtraction \<notin> set (calls (final_state (main s g)))"
  using fallback_run [OF assms] fallback_never_calls_mean_drift [OF assms] by simp

theorem fallback_dispatches_to_line_drift_witness:
  "(lower ''MEAN'' = ''linear'' \<or> lower ''MEAN'' = ''mean'') \<and> lower ''No'' = ''no''
   \<and> main \<lparr>setting_common_plane_subtraction = ''No'', setting_line_drift_correction = ''MEAN'',
            setting_data_shift = ''minimum''\<rparr> [[1, 2, 4], [3, - 1, 5], [0, 0, 7]]
     = Inr \<lparr>height_values = [[7 / 2, 3, 7 / 2], [5, 0, 5], [9 / 2, 1, 9 / 2]],
            calls = [Call_common_plane_subtraction, Call_line_drift_subtraction, Call_shift_min,
                     Call_plot_2d_image [[7 / 2, 3, 7 / 2], [5, 0, 5], [9 / 2, 1, 9 / 2]],
                     Call_plot_3d_image [[7 / 2, 3, 7 / 2], [5, 0, 5], [9 / 2, 1, 9 / 2]]],
            warned = [UserWarning fallback_text],
            warning_list = [''UserWarning: '' @ fallback_text]\<rparr>"
  using fallback_dispatches_to_line_drift [of "\<lparr>setting_common_plane_subtraction = ''No'', setting_line_drift_correction = ''MEAN'',
            setting_data_shift = ''minimum''\<rparr>" "[[1, 2, 4], [3, - 1, 5], [0, 0, 7]]"]
  by (simp add: script_defs common_plane_subtraction_def line_drift_subtraction_def shift_min_def
      np_defs upt_rec fallback_text_def Let_def)


text \<open>
  C3 (amended). The claim: in this branch exactly one warning goes to the warning channel
  and exactly one entry to \<open>warning_list\<close>, both being exactly \<open>fallback_text\<close>. The
  entry of \<open>warning_list\<close> is \<open>fallback_text\<close> with the prefix \<open>UserWarning: \<close>. As
  amended: in this branch, when the automatic plane subtraction and the line drift
  subtraction after it have completed, exactly one warning has been issued, of category
  \<open>UserWarning\<close> and with exactly the text \<open>fallback_text\<close>, and exactly one entry has
  been appended to \<open>warning_list\<close>: \<open>UserWarning: \<close> followed by \<open>fallback_text\<close>.
\<close>
theorem fallback_warning_recorded_once:
  assumes "lower (setting_line_drift_correction s) = ''linear''
           \<or> lower (setting_line_drift_correction s) = ''mean''"
    and "lower (setting_common_plane_subtraction s) = ''no''"
    and "common_plane_subtraction g = Inr g1"
    and "line_drift_subtraction g1 = Inr g2"
  shows "warned (final_state (main s g)) = [UserWarning fallback_text]
     \<and> warning_list (final_state (main s g)) = [''UserWarning: '' @ fallback_text]"
  unfolding fallback_run [OF assms(1,2)]
  by (simp add: assms(3,4) then_plot_warnings shift_stage_warnings)

theorem warning_list_entry_is_prefixed:
  "\<not> (warned (final_state (main \<lparr>setting_common_plane_subtraction = ''no'',
            setting_line_drift_correction = ''linear'', setting_data_shift = ''minimum''\<rparr>
            [[1, 2], [3, 7]])) = [UserWarning fallback_text]
      \<and> warning_list (final_state (main \<lparr>setting_common_plane_subtraction = ''no'',
            setting_line_drift_correction = ''linear'', setting_data_shift = ''minimum''\<rparr>
            [[1, 2], [3, 7]])) = [fallback_text])"
  by (simp add: script_defs common_plane_subtraction_def line_drift_subtraction_def shift_min_def
      np_defs upt_rec fallback_text_def Let_def)


theorem fallback_warning_recorded_once_witness:
  "(lower ''Linear'' = ''linear'' \<or> lower ''Linear'' = ''mean'') \<and> lower ''NO'' = ''no''
   \<and> common_plane_subtraction [[1, 2], [3, 7]] = Inr [[3 / 4, - (3 / 4)], [- (3 / 4), 3 / 4]]
   \<and> line_drift_subtraction [[3 / 4, - (3 / 4)], [- (3 / 4), 3 / 4]] = Inr [[0, 0], [0, 0]]
   \<and> warned (final_state (main \<lparr>setting_common_plane_subtraction = ''NO'',
            setting_line_drift_correction = ''Linear'', setting_data_shift = ''Invalid''\<rparr>
            [[1, 2], [3, 7]])) = [UserWarning fallback_text]
   \<and> warning_list (final_state (main \<lparr>setting_common_plane_subtraction = ''NO'',
            setting_line_drift_correction = ''Linear'', setting_data_shift = ''Invalid''\<rparr>
            [[1, 2], [3, 7]])) = [''UserWarning: '' @ fallback_text]"
  using fallback_warning_recorded_once [of "\<lparr>setting_common_plane_subtraction = ''NO'',
            setting_line_drift_correction = ''Linear'', setting_data_shift = ''Invalid''\<rparr>"
          "[[1, 2], [3, 7]]" "[[3 / 4, - (3 / 4)], [- (3 / 4), 3 / 4]]" "[[0, 0], [0, 0]]"]
  by (simp add: lower_def lower_char_def common_plane_subtraction_def line_drift_subtraction_def
      np_defs upt_rec Let_def)


end
